theory Spec2Isabelle
  imports Complex_Main "HOL-Library.AList"
begin

section \<open>Shared types (shared/types.ts)\<close>

text \<open>
  JavaScript values are modelled as follows. A \<open>string | null\<close> is a \<open>string option\<close>;
  a \<open>number | null\<close> is an \<open>int option\<close> (every number the engine computes with is a
  millisecond clock value, a score or a count, hence an integer; a number is falsy when
  it is \<open>0\<close>, a string when it is empty). A \<open>Map<string, V>\<close>
  is an association list in insertion order: \<open>map_of\<close> is \<open>get\<close>, \<open>AList.update\<close> is
  \<open>set\<close> (an existing key keeps its place, a new key goes to the end), \<open>AList.delete\<close> is
  \<open>delete\<close>, \<open>length\<close> is \<open>size\<close> and \<open>map snd\<close> is \<open>values()\<close>. The source mutates
  objects in place; the model passes the manager's state and returns it updated, writing
  a changed session back under the key it was read from.
\<close>

datatype RoundStatus = Waiting | Open | Locked | Evaluating | Ended

record Team =
  team_id :: string
  team_name :: string
  color :: string
  score :: int

record Player =
  player_id :: string
  socketId :: string
  displayName :: string
  player_teamId :: "string option"
  isConnected :: bool
  lastSeen :: int

record BuzzEntry =
  playerId :: string
  playerName :: string
  teamId :: "string option"
  teamName :: "string option"
  teamColor :: "string option"
  timestamp :: int
  position :: nat

record RoundState =
  status :: RoundStatus
  questionNumber :: nat
  startedAt :: "int option"
  lockedAt :: "int option"
  activePlayerId :: "string option"
  buzzQueue :: "BuzzEntry list"

record SessionSettings =
  teamModeEnabled :: bool
  oneBuzzPerTeam :: bool
  allowLateBuzzes :: bool
  showQueueToPlayers :: bool
  maxPlayersPerSession :: int
  buzzCooldownMs :: int

record RoundResult =
  result_questionNumber :: nat
  winnerId :: "string option"
  winnerName :: "string option"
  result_teamId :: "string option"
  buzzCount :: nat
  duration :: int

record GameSession =
  session_id :: string
  hostSocketId :: string
  createdAt :: int
  settings :: SessionSettings
  teams :: "Team list"
  players :: "(string \<times> Player) list"
  roundState :: RoundState
  roundHistory :: "RoundResult list"

text \<open>\<open>Partial<SessionSettings>\<close>: every field may be absent.\<close>

record PartialSettings =
  opt_teamModeEnabled :: "bool option"
  opt_oneBuzzPerTeam :: "bool option"
  opt_allowLateBuzzes :: "bool option"
  opt_showQueueToPlayers :: "bool option"
  opt_maxPlayersPerSession :: "int option"
  opt_buzzCooldownMs :: "int option"

section \<open>JavaScript helpers\<close>

text \<open>Truthiness of a \<open>string | null | undefined\<close>: null, undefined and \<open>""\<close> are falsy.\<close>

definition truthy :: "string option \<Rightarrow> bool" where
  "truthy v = (case v of None \<Rightarrow> False | Some s \<Rightarrow> s \<noteq> [])"

text \<open>\<open>String.prototype.toLowerCase\<close>, \<open>trim\<close> and \<open>slice(0, n)\<close> on ASCII strings.\<close>

definition lower_char :: "char \<Rightarrow> char" where
  "lower_char c =
     (case map_of (zip ''ABCDEFGHIJKLMNOPQRSTUVWXYZ'' ''abcdefghijklmnopqrstuvwxyz'') c of
        Some l \<Rightarrow> l
      | None \<Rightarrow> c)"

definition toLowerCase :: "string \<Rightarrow> string" where
  "toLowerCase s = map lower_char s"

definition is_space :: "char \<Rightarrow> bool" where
  "is_space c = (let n = (of_char c :: nat) in n = 32 \<or> (9 \<le> n \<and> n \<le> 13))"

definition trim :: "string \<Rightarrow> string" where
  "trim s = rev (dropWhile is_space (rev (dropWhile is_space s)))"

definition slice0 :: "nat \<Rightarrow> string \<Rightarrow> string" where
  "slice0 n s = take n s"

text \<open>
  A string of ASCII characters. On such strings \<open>toLowerCase\<close>, \<open>trim\<close> and \<open>slice0\<close>
  above are the JavaScript functions; beyond ASCII JavaScript also folds letters such as
  \<open>U+00C9\<close>, strips Unicode spaces and counts UTF-16 code units, which these do not.
\<close>

definition is_ascii :: "string \<Rightarrow> bool" where
  "is_ascii s = list_all (\<lambda>c. (of_char c :: nat) < 128) s"

text \<open>\<open>String.prototype.charAt\<close>: the empty string when the index is out of range.\<close>

definition charAt :: "string \<Rightarrow> int \<Rightarrow> string" where
  "charAt s i = (if 0 \<le> i \<and> i < int (length s) then [s ! nat i] else [])"

text \<open>\<open>Array.prototype.forEach((b, i) => { b.position = i + 1 })\<close>.\<close>

definition renumber :: "BuzzEntry list \<Rightarrow> BuzzEntry list" where
  "renumber q = map (\<lambda>(i, b). b\<lparr>position := i + 1\<rparr>) (enumerate 0 q)"

section \<open>The game state manager (server/game-state.ts)\<close>

datatype error =
    SessionNotFound | SessionFull | NameTaken | PlayerNotFoundInSession
  | PlayerNotFound | BuzzerNotActive | AlreadyBuzzed | TooFast | TeamAlreadyBuzzed
  | BuzzerLocked

fun message :: "error \<Rightarrow> string" where
  "message SessionNotFound = ''Session not found''"
| "message SessionFull = ''Session is full''"
| "message NameTaken = ''Name already taken''"
| "message PlayerNotFoundInSession = ''Player not found in session''"
| "message PlayerNotFound = ''Player not found''"
| "message BuzzerNotActive = ''Buzzer is not active''"
| "message AlreadyBuzzed = ''Already buzzed''"
| "message TooFast = ''Too fast''"
| "message TeamAlreadyBuzzed = ''Team already buzzed''"
| "message BuzzerLocked = ''Buzzer is locked''"

definition DEFAULT_SETTINGS :: SessionSettings where
  "DEFAULT_SETTINGS =
     \<lparr>teamModeEnabled = False, oneBuzzPerTeam = False, allowLateBuzzes = True,
      showQueueToPlayers = True, maxPlayersPerSession = 50, buzzCooldownMs = 100\<rparr>"

text \<open>The object spread \<open>{ ...base, ...settings }\<close>: a present field overrides.\<close>

definition merge_settings :: "SessionSettings \<Rightarrow> PartialSettings \<Rightarrow> SessionSettings" where
  "merge_settings base p =
     \<lparr>teamModeEnabled = (case opt_teamModeEnabled p of Some v \<Rightarrow> v | None \<Rightarrow> teamModeEnabled base),
      oneBuzzPerTeam = (case opt_oneBuzzPerTeam p of Some v \<Rightarrow> v | None \<Rightarrow> oneBuzzPerTeam base),
      allowLateBuzzes = (case opt_allowLateBuzzes p of Some v \<Rightarrow> v | None \<Rightarrow> allowLateBuzzes base),
      showQueueToPlayers = (case opt_showQueueToPlayers p of Some v \<Rightarrow> v | None \<Rightarrow> showQueueToPlayers base),
      maxPlayersPerSession = (case opt_maxPlayersPerSession p of Some v \<Rightarrow> v | None \<Rightarrow> maxPlayersPerSession base),
      buzzCooldownMs = (case opt_buzzCooldownMs p of Some v \<Rightarrow> v | None \<Rightarrow> buzzCooldownMs base)\<rparr>"

record GameStateManager =
  sessions :: "(string \<times> GameSession) list"
  playerToSession :: "(string \<times> string) list"
  socketToPlayer :: "(string \<times> string) list"
  playerBuzzTimestamps :: "(string \<times> int) list"

subsection \<open>Utilities\<close>

definition createInitialRoundState :: RoundState where
  "createInitialRoundState =
     \<lparr>status = Waiting, questionNumber = 0, startedAt = None, lockedAt = None,
      activePlayerId = None, buzzQueue = []\<rparr>"

definition chars :: string where
  "chars = ''ABCDEFGHJKLMNPQRSTUVWXYZ23456789''"

text \<open>
  \<open>generateSessionId\<close>. The argument \<open>rnd i\<close> is the value that the call of
  \<open>Math.random()\<close> in iteration \<open>i\<close> returns, a number in \<open>[0, 1)\<close>.
\<close>

definition generateSessionId :: "(nat \<Rightarrow> real) \<Rightarrow> string" where
  "generateSessionId rnd =
     fold (\<lambda>i result. result @ charAt chars \<lfloor>rnd i * real (length chars)\<rfloor>) [0..<6] []"

subsection \<open>Session management\<close>

text \<open>\<open>createSession\<close>; \<open>now\<close> is the value of \<open>Date.now()\<close>.\<close>

definition createSession ::
  "int \<Rightarrow> (nat \<Rightarrow> real) \<Rightarrow> string \<Rightarrow> PartialSettings \<Rightarrow> GameStateManager
     \<Rightarrow> GameSession \<times> GameStateManager" where
  "createSession now rnd hostSocketId' settings' m =
     (let sessionId = generateSessionId rnd;
          session = \<lparr>session_id = sessionId, hostSocketId = hostSocketId', createdAt = now,
                     settings = merge_settings DEFAULT_SETTINGS settings', teams = [],
                     players = [], roundState = createInitialRoundState, roundHistory = []\<rparr>
      in (session, m\<lparr>sessions := AList.update sessionId session (sessions m)\<rparr>))"

definition endSession :: "string \<Rightarrow> GameStateManager \<Rightarrow> GameStateManager" where
  "endSession sessionId m =
     (case map_of (sessions m) sessionId of
        None \<Rightarrow> m
      | Some session \<Rightarrow>
          m\<lparr>playerToSession :=
               fold (\<lambda>player. AList.delete (player_id player)) (map snd (players session))
                 (playerToSession m),
            socketToPlayer :=
               fold (\<lambda>player. AList.delete (socketId player)) (map snd (players session))
                 (socketToPlayer m),
            sessions := AList.delete sessionId (sessions m)\<rparr>)"

subsection \<open>Player management\<close>

text \<open>
  \<open>addPlayer\<close>; \<open>now\<close> is the value of \<open>Date.now()\<close> and \<open>uuid\<close> the value of
  \<open>uuidv4()\<close>.
\<close>

definition addPlayer ::
  "int \<Rightarrow> string \<Rightarrow> string \<Rightarrow> string \<Rightarrow> string \<Rightarrow> GameStateManager
     \<Rightarrow> (error + Player \<times> GameSession) \<times> GameStateManager" where
  "addPlayer now uuid sessionId socketId' displayName' m =
     (case map_of (sessions m) sessionId of
        None \<Rightarrow> (Inl SessionNotFound, m)
      | Some session \<Rightarrow>
          if int (length (players session)) \<ge> maxPlayersPerSession (settings session)
          then (Inl SessionFull, m)
          else
            (case find (\<lambda>p. toLowerCase (displayName p) = toLowerCase displayName'
                             \<and> isConnected p) (map snd (players session)) of
               Some existingPlayer \<Rightarrow> (Inl NameTaken, m)
             | None \<Rightarrow>
                 (let player = \<lparr>player_id = uuid, socketId = socketId',
                                displayName = slice0 20 (trim displayName'),
                                player_teamId = None, isConnected = True, lastSeen = now\<rparr>;
                      session' = session\<lparr>players := AList.update uuid player (players session)\<rparr>
                  in (Inr (player, session'),
                      m\<lparr>sessions := AList.update sessionId session' (sessions m),
                        playerToSession := AList.update uuid sessionId (playerToSession m),
                        socketToPlayer := AList.update socketId' uuid (socketToPlayer m)\<rparr>))))"

text \<open>
  \<open>getPlayerBySocketId\<close>. Beside the player and the session, the model returns the
  registry key under which the session was found: it stands for the reference to the
  session object, which callers mutate in place.
\<close>

definition getPlayerBySocketId ::
  "string \<Rightarrow> GameStateManager \<Rightarrow> (string \<times> Player \<times> GameSession) option" where
  "getPlayerBySocketId socketId' m =
     (case map_of (socketToPlayer m) socketId' of
        None \<Rightarrow> None
      | Some playerId' \<Rightarrow>
          if playerId' = [] then None
          else
            (case map_of (playerToSession m) playerId' of
               None \<Rightarrow> None
             | Some sessionId \<Rightarrow>
                 if sessionId = [] then None
                 else
                   (case map_of (sessions m) sessionId of
                      None \<Rightarrow> None
                    | Some session \<Rightarrow>
                        (case map_of (players session) playerId' of
                           None \<Rightarrow> None
                         | Some player \<Rightarrow> Some (sessionId, player, session)))))"

definition disconnectPlayer ::
  "int \<Rightarrow> string \<Rightarrow> GameStateManager \<Rightarrow> (Player \<times> GameSession) option \<times> GameStateManager" where
  "disconnectPlayer now socketId' m =
     (case map_of (socketToPlayer m) socketId' of
        None \<Rightarrow> (None, m)
      | Some playerId' \<Rightarrow>
          if playerId' = [] then (None, m)
          else
            (case map_of (playerToSession m) playerId' of
               None \<Rightarrow> (None, m)
             | Some sessionId \<Rightarrow>
                 if sessionId = [] then (None, m)
                 else
                   (case map_of (sessions m) sessionId of
                      None \<Rightarrow> (None, m)
                    | Some session \<Rightarrow>
                        (case map_of (players session) playerId' of
                           None \<Rightarrow> (None, m)
                         | Some player \<Rightarrow>
                             (let player' = player\<lparr>isConnected := False, lastSeen := now\<rparr>;
                                  session' = session\<lparr>players :=
                                    AList.update playerId' player' (players session)\<rparr>
                              in (Some (player', session'),
                                  m\<lparr>sessions :=
                                      AList.update sessionId session' (sessions m)\<rparr>))))))"

subsection \<open>Round management\<close>

definition startRound :: "int \<Rightarrow> string \<Rightarrow> GameStateManager \<Rightarrow> RoundState option \<times> GameStateManager" where
  "startRound now sessionId m =
     (case map_of (sessions m) sessionId of
        None \<Rightarrow> (None, m)
      | Some session \<Rightarrow>
          (let r = \<lparr>status = Open, questionNumber = questionNumber (roundState session) + 1,
                    startedAt = Some now, lockedAt = None, activePlayerId = None,
                    buzzQueue = []\<rparr>
           in (Some r, m\<lparr>sessions :=
                 AList.update sessionId (session\<lparr>roundState := r\<rparr>) (sessions m)\<rparr>)))"

subsection \<open>Buzzing logic\<close>

text \<open>\<open>processBuzz\<close>; \<open>now\<close> is the value of \<open>Date.now()\<close>.\<close>

definition processBuzz ::
  "int \<Rightarrow> string \<Rightarrow> GameStateManager \<Rightarrow> (error + BuzzEntry) \<times> GameStateManager" where
  "processBuzz now socketId' m =
     (case getPlayerBySocketId socketId' m of
        None \<Rightarrow> (Inl PlayerNotFound, m)
      | Some (sessionId, player, session) \<Rightarrow>
          (let r = roundState session in
           if status r \<noteq> Open \<and> status r \<noteq> Locked then (Inl BuzzerNotActive, m)
           else if list_ex (\<lambda>b. playerId b = player_id player) (buzzQueue r)
           then (Inl AlreadyBuzzed, m)
           else if (case map_of (playerBuzzTimestamps m) (player_id player) of
                      None \<Rightarrow> False
                    | Some lastBuzz \<Rightarrow>
                        lastBuzz \<noteq> 0 \<and> now - lastBuzz < buzzCooldownMs (settings session))
           then (Inl TooFast, m)
           else
             (let m1 = m\<lparr>playerBuzzTimestamps :=
                          AList.update (player_id player) now (playerBuzzTimestamps m)\<rparr> in
              if oneBuzzPerTeam (settings session) \<and> truthy (player_teamId player)
                 \<and> list_ex (\<lambda>b. teamId b = player_teamId player) (buzzQueue r)
              then (Inl TeamAlreadyBuzzed, m1)
              else if status r = Locked \<and> \<not> allowLateBuzzes (settings session)
              then (Inl BuzzerLocked, m1)
              else
                (let team = (if truthy (player_teamId player)
                             then find (\<lambda>t. Some (team_id t) = player_teamId player)
                                    (teams session)
                             else None);
                     buzzEntry = \<lparr>playerId = player_id player,
                                  playerName = displayName player,
                                  teamId = player_teamId player,
                                  teamName = map_option team_name team,
                                  teamColor = map_option color team,
                                  timestamp = now,
                                  position = length (buzzQueue r) + 1\<rparr>;
                     r1 = r\<lparr>buzzQueue := buzzQueue r @ [buzzEntry]\<rparr>;
                     r2 = (if status r1 = Open
                           then r1\<lparr>status := Locked, lockedAt := Some now,
                                   activePlayerId := Some (player_id player)\<rparr>
                           else r1)
                 in (Inr buzzEntry,
                     m1\<lparr>sessions :=
                          AList.update sessionId (session\<lparr>roundState := r2\<rparr>) (sessions m1)\<rparr>)))))"

subsection \<open>Queue progression\<close>

text \<open>
  \<open>advanceQueue\<close>: \<open>buzzQueue[0]\<close> is undefined on an empty queue, and
  \<open>nextEntry?.playerId ?? null\<close> is then null.
\<close>

definition advanceQueue :: "GameSession \<Rightarrow> GameSession" where
  "advanceQueue session =
     (let r = roundState session;
          r1 = r\<lparr>activePlayerId :=
                  (case buzzQueue r of [] \<Rightarrow> None | nextEntry # _ \<Rightarrow> Some (playerId nextEntry))\<rparr>;
          r2 = (if \<not> truthy (activePlayerId r1) then r1\<lparr>status := Waiting\<rparr> else r1)
      in session\<lparr>roundState := r2\<rparr>)"

definition removePlayer ::
  "string \<Rightarrow> string \<Rightarrow> GameStateManager \<Rightarrow> GameSession option \<times> GameStateManager" where
  "removePlayer sessionId playerId' m =
     (case map_of (sessions m) sessionId of
        None \<Rightarrow> (None, m)
      | Some session \<Rightarrow>
          (let socketToPlayer' =
                 (case map_of (players session) playerId' of
                    Some player \<Rightarrow> AList.delete (socketId player) (socketToPlayer m)
                  | None \<Rightarrow> socketToPlayer m);
               s1 = session\<lparr>players := AList.delete playerId' (players session)\<rparr>;
               s2 = s1\<lparr>roundState := (roundState s1)
                      \<lparr>buzzQueue := filter (\<lambda>b. playerId b \<noteq> playerId')
                                      (buzzQueue (roundState s1))\<rparr>\<rparr>;
               s3 = (if activePlayerId (roundState s2) = Some playerId'
                     then advanceQueue s2 else s2)
           in (Some s3,
               m\<lparr>sessions := AList.update sessionId s3 (sessions m),
                 playerToSession := AList.delete playerId' (playerToSession m),
                 socketToPlayer := socketToPlayer'\<rparr>)))"

definition skipPlayer :: "string \<Rightarrow> string \<Rightarrow> GameStateManager \<Rightarrow> bool \<times> GameStateManager" where
  "skipPlayer sessionId playerId' m =
     (case map_of (sessions m) sessionId of
        None \<Rightarrow> (False, m)
      | Some session \<Rightarrow>
          (let r = roundState session;
               s1 = session\<lparr>roundState :=
                      r\<lparr>buzzQueue := renumber (filter (\<lambda>b. playerId b \<noteq> playerId') (buzzQueue r))\<rparr>\<rparr>;
               s2 = (if activePlayerId (roundState s1) = Some playerId'
                     then advanceQueue s1 else s1)
           in (True, m\<lparr>sessions := AList.update sessionId s2 (sessions m)\<rparr>)))"

text \<open>
  \<open>markPass\<close> returns \<open>{ passedPlayerId, newActivePlayerId }\<close>, or undefined (\<open>None\<close>)
  when the session is unknown or \<open>activePlayerId\<close> is falsy.
\<close>

definition markPass ::
  "string \<Rightarrow> GameStateManager \<Rightarrow> (string \<times> string option) option \<times> GameStateManager" where
  "markPass sessionId m =
     (case map_of (sessions m) sessionId of
        None \<Rightarrow> (None, m)
      | Some session \<Rightarrow>
          (case activePlayerId (roundState session) of
             None \<Rightarrow> (None, m)
           | Some passedPlayerId \<Rightarrow>
               if passedPlayerId = [] then (None, m)
               else
                 (let r = roundState session;
                      q = renumber (filter (\<lambda>b. playerId b \<noteq> passedPlayerId) (buzzQueue r));
                      newActive = (case q of [] \<Rightarrow> None
                                   | nextEntry # _ \<Rightarrow> Some (playerId nextEntry));
                      r' = r\<lparr>buzzQueue := q, activePlayerId := newActive\<rparr>
                  in (Some (passedPlayerId, newActive),
                      m\<lparr>sessions :=
                          AList.update sessionId (session\<lparr>roundState := r'\<rparr>) (sessions m)\<rparr>))))"

subsection \<open>Scoring\<close>

text \<open>\<open>team.score += delta\<close> on the first team that \<open>find\<close> returns.\<close>

fun add_score :: "string \<Rightarrow> int \<Rightarrow> Team list \<Rightarrow> Team list" where
  "add_score tid delta [] = []"
| "add_score tid delta (t # ts) =
     (if team_id t = tid then t\<lparr>score := score t + delta\<rparr> # ts
      else t # add_score tid delta ts)"

definition updateTeamScore ::
  "string \<Rightarrow> string \<Rightarrow> int \<Rightarrow> GameStateManager \<Rightarrow> Team option \<times> GameStateManager" where
  "updateTeamScore sessionId teamId' delta m =
     (case map_of (sessions m) sessionId of
        None \<Rightarrow> (None, m)
      | Some session \<Rightarrow>
          (case find (\<lambda>t. team_id t = teamId') (teams session) of
             None \<Rightarrow> (None, m)
           | Some team \<Rightarrow>
               (Some (team\<lparr>score := score team + delta\<rparr>),
                m\<lparr>sessions :=
                    AList.update sessionId
                      (session\<lparr>teams := add_score teamId' delta (teams session)\<rparr>)
                      (sessions m)\<rparr>)))"

text \<open>
  \<open>markCorrect\<close>; \<open>now\<close> is the value of \<open>Date.now()\<close>. The call of \<open>updateTeamScore\<close>
  changes the session object that \<open>session\<close> refers to, so the model reads the session
  again from the state that \<open>updateTeamScore\<close> returns.
\<close>

definition markCorrect ::
  "int \<Rightarrow> string \<Rightarrow> GameStateManager \<Rightarrow> RoundResult option \<times> GameStateManager" where
  "markCorrect now sessionId m =
     (case map_of (sessions m) sessionId of
        None \<Rightarrow> (None, m)
      | Some session \<Rightarrow>
          (case activePlayerId (roundState session) of
             None \<Rightarrow> (None, m)
           | Some active \<Rightarrow>
               if active = [] then (None, m)
               else
                 (let activePlayer = map_of (players session) active;
                      activeTeamId = (case activePlayer of None \<Rightarrow> None
                                      | Some p \<Rightarrow> player_teamId p);
                      result = \<lparr>result_questionNumber = questionNumber (roundState session),
                                winnerId = Some active,
                                winnerName = map_option displayName activePlayer,
                                result_teamId = activeTeamId,
                                buzzCount = length (buzzQueue (roundState session)),
                                duration = (case startedAt (roundState session) of
                                              None \<Rightarrow> 0
                                            | Some t \<Rightarrow> if t = 0 then 0 else now - t)\<rparr>;
                      m1 = (case activeTeamId of
                              None \<Rightarrow> m
                            | Some tid \<Rightarrow>
                                if tid = [] then m else snd (updateTeamScore sessionId tid 1 m));
                      session1 = (case map_of (sessions m1) sessionId of
                                    Some s \<Rightarrow> s | None \<Rightarrow> session);
                      session2 = session1
                        \<lparr>roundHistory := roundHistory session1 @ [result],
                         roundState :=
                           \<lparr>status = Ended,
                            questionNumber = questionNumber (roundState session1),
                            startedAt = None, lockedAt = None, activePlayerId = None,
                            buzzQueue = []\<rparr>\<rparr>
                  in (Some result,
                      m1\<lparr>sessions := AList.update sessionId session2 (sessions m1)\<rparr>))))"

subsection \<open>Staleness sweep\<close>

text \<open>\<open>Math.max(session.createdAt, ...lastSeen values)\<close>.\<close>

definition lastActivity :: "GameSession \<Rightarrow> int" where
  "lastActivity session = fold max (map (lastSeen \<circ> snd) (players session)) (createdAt session)"

text \<open>
  \<open>cleanupStaleSessions\<close>; \<open>now\<close> is the value of \<open>Date.now()\<close>. The loop visits the
  entries of the registry in insertion order; \<open>endSession\<close> deletes only the entry being
  visited and changes no other session, so visiting the entries present at the start
  is what the live iteration does.
\<close>

definition cleanupStaleSessions :: "int \<Rightarrow> int \<Rightarrow> GameStateManager \<Rightarrow> GameStateManager" where
  "cleanupStaleSessions now maxAgeMs m =
     fold (\<lambda>(sessionId, session) m'.
             if now - lastActivity session > maxAgeMs then endSession sessionId m' else m')
          (sessions m) m"

section \<open>Sequences of calls and auxiliary notions\<close>

text \<open>
  A sequence of buzz attempts \<open>(now, socketId)\<close>, run in order. The log holds every
  accepted entry in the order of acceptance, with the registry key of the session whose
  queue received it.
\<close>

fun processBuzzes ::
  "(int \<times> string) list \<Rightarrow> GameStateManager
     \<Rightarrow> (string option \<times> BuzzEntry) list \<times> GameStateManager" where
  "processBuzzes [] m = ([], m)"
| "processBuzzes ((now, socketId') # rest) m =
     (case processBuzz now socketId' m of
        (Inl e, m1) \<Rightarrow> processBuzzes rest m1
      | (Inr b, m1) \<Rightarrow>
          (case processBuzzes rest m1 of
             (lg, m2) \<Rightarrow>
               ((map_option fst (getPlayerBySocketId socketId' m), b) # lg, m2)))"

definition accepted_for :: "string \<Rightarrow> (string option \<times> BuzzEntry) list \<Rightarrow> BuzzEntry list" where
  "accepted_for sid lg = map snd (filter (\<lambda>(k, b). k = Some sid) lg)"

text \<open>The round state that an accepted buzz of player \<open>p\<close> at time \<open>now\<close> leaves.\<close>

definition accepted_round :: "int \<Rightarrow> Player \<Rightarrow> RoundState \<Rightarrow> BuzzEntry \<Rightarrow> RoundState" where
  "accepted_round now p r e =
     (if status r = Open
      then r\<lparr>buzzQueue := buzzQueue r @ [e], status := Locked, lockedAt := Some now,
             activePlayerId := Some (player_id p)\<rparr>
      else r\<lparr>buzzQueue := buzzQueue r @ [e]\<rparr>)"

text \<open>The body of the loop of \<open>cleanupStaleSessions\<close>.\<close>

definition sweep_step ::
  "int \<Rightarrow> int \<Rightarrow> string \<times> GameSession \<Rightarrow> GameStateManager \<Rightarrow> GameStateManager" where
  "sweep_step now maxAgeMs =
     (\<lambda>(sessionId, session) m'.
        if now - lastActivity session > maxAgeMs then endSession sessionId m' else m')"

text \<open>
  The team that \<open>markCorrect\<close> awards: the first team whose id is the team id of the
  active player, when that id is truthy.
\<close>

definition awarded_team :: "GameSession \<Rightarrow> string \<Rightarrow> Team option" where
  "awarded_team s a =
     (case map_of (players s) a of
        None \<Rightarrow> None
      | Some p \<Rightarrow>
          (case player_teamId p of
             None \<Rightarrow> None
           | Some tid \<Rightarrow> if tid = [] then None else find (\<lambda>t. team_id t = tid) (teams s)))"

section \<open>A session used in the examples\<close>

definition team1 :: Team where
  "team1 = \<lparr>team_id = ''t1'', team_name = ''Red'', color = ''#FF2D55'', score = 3\<rparr>"

definition playerA :: Player where
  "playerA = \<lparr>player_id = ''pA'', socketId = ''sA'', displayName = ''Ann'',
              player_teamId = Some ''t1'', isConnected = True, lastSeen = 10\<rparr>"

definition playerB :: Player where
  "playerB = \<lparr>player_id = ''pB'', socketId = ''sB'', displayName = ''Bob'',
              player_teamId = None, isConnected = True, lastSeen = 20\<rparr>"

definition playerC :: Player where
  "playerC = \<lparr>player_id = ''pC'', socketId = ''sC'', displayName = ''Cy'',
              player_teamId = Some ''t1'', isConnected = False, lastSeen = 30\<rparr>"

definition open_round :: RoundState where
  "open_round = \<lparr>status = Open, questionNumber = 1, startedAt = Some 50, lockedAt = None,
                 activePlayerId = None, buzzQueue = []\<rparr>"

definition session0 :: GameSession where
  "session0 = \<lparr>session_id = ''AAAAAA'', hostSocketId = ''h0'', createdAt = 0,
               settings = DEFAULT_SETTINGS, teams = [team1],
               players = [(''pA'', playerA), (''pB'', playerB), (''pC'', playerC)],
               roundState = open_round, roundHistory = []\<rparr>"

definition manager0 :: GameStateManager where
  "manager0 = \<lparr>sessions = [(''AAAAAA'', session0)],
               playerToSession = [(''pA'', ''AAAAAA''), (''pB'', ''AAAAAA''), (''pC'', ''AAAAAA'')],
               socketToPlayer = [(''sA'', ''pA''), (''sB'', ''pB''), (''sC'', ''pC'')],
               playerBuzzTimestamps = []\<rparr>"

text \<open>The same session with late buzzes disabled, and its state once Ann has buzzed.\<close>

definition session_nolate :: GameSession where
  "session_nolate = session0\<lparr>settings := DEFAULT_SETTINGS\<lparr>allowLateBuzzes := False\<rparr>\<rparr>"

definition manager_nolate :: GameStateManager where
  "manager_nolate = manager0\<lparr>sessions := [(''AAAAAA'', session_nolate)]\<rparr>"

definition manager_locked :: GameStateManager where
  "manager_locked = snd (processBuzz 100 ''sA'' manager_nolate)"

text \<open>The example session once Ann has buzzed, and once Bob has buzzed after her.\<close>

definition manager_A :: GameStateManager where
  "manager_A = snd (processBuzz 100 ''sA'' manager0)"

definition manager_AB :: GameStateManager where
  "manager_AB = snd (processBuzz 105 ''sB'' manager_A)"

text \<open>
  The example session with room for three players, and the example session once Bob's
  socket has disconnected at time 150.
\<close>

definition session_small :: GameSession where
  "session_small = session0\<lparr>settings := DEFAULT_SETTINGS\<lparr>maxPlayersPerSession := 3\<rparr>\<rparr>"

definition manager_small :: GameStateManager where
  "manager_small = manager0\<lparr>sessions := [(''AAAAAA'', session_small)]\<rparr>"

definition session_Bob_away :: GameSession where
  "session_Bob_away =
     session0\<lparr>players := [(''pA'', playerA),
                           (''pB'', playerB\<lparr>isConnected := False, lastSeen := 150\<rparr>),
                           (''pC'', playerC)]\<rparr>"

text \<open>
  A registry of two sessions: the example session, last active at time 30, and a session
  created at time 31 that nobody has joined.
\<close>

definition session_fresh :: GameSession where
  "session_fresh = \<lparr>session_id = ''BBBBBB'', hostSocketId = ''h1'', createdAt = 31,
                    settings = DEFAULT_SETTINGS, teams = [], players = [],
                    roundState = createInitialRoundState, roundHistory = []\<rparr>"

definition manager_two :: GameStateManager where
  "manager_two = manager0\<lparr>sessions := [(''AAAAAA'', session0), (''BBBBBB'', session_fresh)]\<rparr>"

text \<open>The example session with Ann buzzed, and with Bob at the head once Ann has passed.\<close>

definition session_A :: GameSession where
  "session_A = session0\<lparr>roundState :=
     \<lparr>status = Locked, questionNumber = 1, startedAt = Some 50, lockedAt = Some 100,
      activePlayerId = Some ''pA'',
      buzzQueue = [\<lparr>playerId = ''pA'', playerName = ''Ann'', teamId = Some ''t1'',
                    teamName = Some ''Red'', teamColor = Some ''#FF2D55'',
                    timestamp = 100, position = 1\<rparr>]\<rparr>\<rparr>"

definition session_B :: GameSession where
  "session_B = session0\<lparr>roundState :=
     \<lparr>status = Locked, questionNumber = 1, startedAt = Some 50, lockedAt = Some 100,
      activePlayerId = Some ''pB'',
      buzzQueue = [\<lparr>playerId = ''pB'', playerName = ''Bob'', teamId = None,
                    teamName = None, teamColor = None, timestamp = 105, position = 1\<rparr>]\<rparr>\<rparr>"

text \<open>
  Two sources of random numbers (the first always returns 0), and a request to create a
  session that overrides no setting.
\<close>

definition rnd_zero :: "nat \<Rightarrow> real" where
  "rnd_zero i = 0"

definition rnd_mixed :: "nat \<Rightarrow> real" where
  "rnd_mixed i = real i / 8 + 1 / 100"

definition no_settings :: PartialSettings where
  "no_settings = \<lparr>opt_teamModeEnabled = None, opt_oneBuzzPerTeam = None,
      opt_allowLateBuzzes = None, opt_showQueueToPlayers = None,
      opt_maxPlayersPerSession = None, opt_buzzCooldownMs = None\<rparr>"

section \<open>Buzz admission\<close>

lemmas example_defs =
  manager0_def session0_def open_round_def playerA_def playerB_def playerC_def team1_def
  DEFAULT_SETTINGS_def

lemmas buzz_defs = processBuzz_def getPlayerBySocketId_def truthy_def Let_def

lemma processBuzz_error_sessions:
  "processBuzz now sock m = (Inl e, m') \<Longrightarrow> sessions m' = sessions m"
  by (auto simp: processBuzz_def Let_def split: option.splits prod.splits if_splits)

lemma getPlayerBySocketId_session:
  "getPlayerBySocketId sock m = Some (sid, p, s) \<Longrightarrow> map_of (sessions m) sid = Some s"
  by (auto simp: getPlayerBySocketId_def split: option.splits if_splits)

lemma processBuzz_accept:
  assumes "processBuzz now sock m = (Inr e, m')"
  shows "\<exists>sid p s. getPlayerBySocketId sock m = Some (sid, p, s)
           \<and> (status (roundState s) = Open \<or> status (roundState s) = Locked)
           \<and> playerId e = player_id p \<and> timestamp e = now
           \<and> position e = length (buzzQueue (roundState s)) + 1
           \<and> sessions m' = AList.update sid (s\<lparr>roundState := accepted_round now p (roundState s) e\<rparr>) (sessions m)"
proof -
  obtain sid p s where g: "getPlayerBySocketId sock m = Some (sid, p, s)"
    using assms by (cases "getPlayerBySocketId sock m") (auto simp: processBuzz_def)
  show ?thesis
    using assms unfolding g
    by (simp add: processBuzz_def g accepted_round_def Let_def split: if_splits) auto
qed

lemma accepted_round_queue: "buzzQueue (accepted_round now p r e) = buzzQueue r @ [e]"
  by (simp add: accepted_round_def)

lemma processBuzzes_queue:
  "map_of (sessions m) sid = Some s \<Longrightarrow> processBuzzes attempts m = (lg, m') \<Longrightarrow>
   \<exists>s'. map_of (sessions m') sid = Some s'
      \<and> buzzQueue (roundState s') = buzzQueue (roundState s) @ accepted_for sid lg
      \<and> map position (accepted_for sid lg)
          = [length (buzzQueue (roundState s)) + 1
             ..< length (buzzQueue (roundState s)) + length (accepted_for sid lg) + 1]"
proof (induction attempts arbitrary: m s lg m')
  case Nil
  then show ?case by (simp add: accepted_for_def)
next
  case (Cons a rest)
  obtain now sock where a: "a = (now, sock)" by (cases a)
  obtain res m1 where pb: "processBuzz now sock m = (res, m1)" by (cases "processBuzz now sock m")
  show ?case
  proof (cases res)
    case (Inl e)
    with pb have same: "sessions m1 = sessions m" by (simp add: processBuzz_error_sessions)
    from Cons.prems(2) a pb Inl have run: "processBuzzes rest m1 = (lg, m')" by simp
    from Cons.prems(1) same have "map_of (sessions m1) sid = Some s" by simp
    from Cons.IH[OF this run] show ?thesis .
  next
    case (Inr b)
    obtain lg1 where run: "processBuzzes rest m1 = (lg1, m')"
      and lg: "lg = (map_option fst (getPlayerBySocketId sock m), b) # lg1"
      using Cons.prems(2) a pb Inr by (auto split: prod.splits)
    from pb Inr processBuzz_accept obtain sid0 p0 s0 where
      g: "getPlayerBySocketId sock m = Some (sid0, p0, s0)"
      and pos: "position b = length (buzzQueue (roundState s0)) + 1"
      and upd: "sessions m1 = AList.update sid0
                  (s0\<lparr>roundState := accepted_round now p0 (roundState s0) b\<rparr>) (sessions m)"
      by blast
    show ?thesis
    proof (cases "sid0 = sid")
      case True
      with g Cons.prems(1) have s0: "s0 = s" by (auto dest: getPlayerBySocketId_session)
      let ?s1 = "s\<lparr>roundState := accepted_round now p0 (roundState s) b\<rparr>"
      have look: "map_of (sessions m1) sid = Some ?s1"
        using upd True s0 by (simp add: update_conv')
      from Cons.IH[OF look run] obtain s' where
        1: "map_of (sessions m') sid = Some s'"
        and 2: "buzzQueue (roundState s') = buzzQueue (roundState ?s1) @ accepted_for sid lg1"
        and 3: "map position (accepted_for sid lg1)
                 = [length (buzzQueue (roundState ?s1)) + 1
                    ..< length (buzzQueue (roundState ?s1)) + length (accepted_for sid lg1) + 1]"
        by blast
      have acc: "accepted_for sid lg = b # accepted_for sid lg1"
        using lg g True by (simp add: accepted_for_def)
      have "map position (accepted_for sid lg)
              = [length (buzzQueue (roundState s)) + 1
                 ..< length (buzzQueue (roundState s)) + length (accepted_for sid lg) + 1]"
      proof -
        define n where "n = length (buzzQueue (roundState s))"
        define k where "k = length (accepted_for sid lg1)"
        have "map position (accepted_for sid lg1) = [Suc n + 1 ..< Suc n + k + 1]"
          using 3 by (simp add: n_def k_def accepted_round_queue)
        moreover have "[n + 1 ..< n + Suc k + 1] = (n + 1) # [Suc n + 1 ..< Suc n + k + 1]"
          by (simp add: upt_conv_Cons)
        moreover have "position b = n + 1" using pos s0 by (simp add: n_def)
        ultimately show ?thesis by (simp add: acc n_def k_def)
      qed
      with 1 2 acc show ?thesis by (simp add: accepted_round_queue)
    next
      case False
      have look: "map_of (sessions m1) sid = Some s"
        using upd False Cons.prems(1) by (simp add: update_conv')
      have acc: "accepted_for sid lg = accepted_for sid lg1"
        using lg g False by (simp add: accepted_for_def)
      from Cons.IH[OF look run] acc show ?thesis by simp
    qed
  qed
qed

lemma accepted_round_fields:
  "questionNumber (accepted_round now p r e) = questionNumber r"
  "startedAt (accepted_round now p r e) = startedAt r"
  "status r = Open \<Longrightarrow> status (accepted_round now p r e) = Locked"
  "status r = Open \<Longrightarrow> lockedAt (accepted_round now p r e) = Some now"
  "status r = Open \<Longrightarrow> activePlayerId (accepted_round now p r e) = Some (player_id p)"
  "status r \<noteq> Open \<Longrightarrow> status (accepted_round now p r e) = status r"
  "status r \<noteq> Open \<Longrightarrow> lockedAt (accepted_round now p r e) = lockedAt r"
  "status r \<noteq> Open \<Longrightarrow> activePlayerId (accepted_round now p r e) = activePlayerId r"
  by (simp_all add: accepted_round_def)

lemma processBuzzes_phase:
  "map_of (sessions m) sid = Some s \<Longrightarrow> processBuzzes attempts m = (lg, m') \<Longrightarrow>
   \<exists>s'. map_of (sessions m') sid = Some s'
      \<and> questionNumber (roundState s') = questionNumber (roundState s)
      \<and> startedAt (roundState s') = startedAt (roundState s)
      \<and> (status (roundState s) = Open \<and> accepted_for sid lg \<noteq> [] \<longrightarrow>
            status (roundState s') = Locked
          \<and> lockedAt (roundState s') = Some (timestamp (hd (accepted_for sid lg)))
          \<and> activePlayerId (roundState s') = Some (playerId (hd (accepted_for sid lg))))
      \<and> (status (roundState s) \<noteq> Open \<or> accepted_for sid lg = [] \<longrightarrow>
            status (roundState s') = status (roundState s)
          \<and> lockedAt (roundState s') = lockedAt (roundState s)
          \<and> activePlayerId (roundState s') = activePlayerId (roundState s))"
proof (induction attempts arbitrary: m s lg m')
  case Nil
  then show ?case by (simp add: accepted_for_def)
next
  case (Cons a rest)
  obtain now sock where a: "a = (now, sock)" by (cases a)
  obtain res m1 where pb: "processBuzz now sock m = (res, m1)" by (cases "processBuzz now sock m")
  show ?case
  proof (cases res)
    case (Inl e)
    with pb have same: "sessions m1 = sessions m" by (simp add: processBuzz_error_sessions)
    from Cons.prems(2) a pb Inl have run: "processBuzzes rest m1 = (lg, m')" by simp
    from Cons.prems(1) same have "map_of (sessions m1) sid = Some s" by simp
    from Cons.IH[OF this run] show ?thesis .
  next
    case (Inr b)
    obtain lg1 where run: "processBuzzes rest m1 = (lg1, m')"
      and lg: "lg = (map_option fst (getPlayerBySocketId sock m), b) # lg1"
      using Cons.prems(2) a pb Inr by (auto split: prod.splits)
    from pb Inr processBuzz_accept obtain sid0 p0 s0 where
      g: "getPlayerBySocketId sock m = Some (sid0, p0, s0)"
      and st: "status (roundState s0) = Open \<or> status (roundState s0) = Locked"
      and pid: "playerId b = player_id p0" and ts: "timestamp b = now"
      and upd: "sessions m1 = AList.update sid0
                  (s0\<lparr>roundState := accepted_round now p0 (roundState s0) b\<rparr>) (sessions m)"
      by blast
    show ?thesis
    proof (cases "sid0 = sid")
      case True
      with g Cons.prems(1) have s0: "s0 = s" by (auto dest: getPlayerBySocketId_session)
      let ?r1 = "accepted_round now p0 (roundState s) b"
      let ?s1 = "s\<lparr>roundState := ?r1\<rparr>"
      have look: "map_of (sessions m1) sid = Some ?s1"
        using upd True s0 by (simp add: update_conv')
      have locked1: "status ?r1 = Locked"
        using st s0 by (auto simp: accepted_round_fields)
      then have notopen: "status (roundState ?s1) \<noteq> Open" by simp
      from Cons.IH[OF look run] notopen obtain s' where
        1: "map_of (sessions m') sid = Some s'"
        and 2: "questionNumber (roundState s') = questionNumber ?r1"
               "startedAt (roundState s') = startedAt ?r1"
               "status (roundState s') = status ?r1"
               "lockedAt (roundState s') = lockedAt ?r1"
               "activePlayerId (roundState s') = activePlayerId ?r1"
        by auto
      have acc: "accepted_for sid lg = b # accepted_for sid lg1"
        using lg g True by (simp add: accepted_for_def)
      show ?thesis
      proof (cases "status (roundState s) = Open")
        case True
        with 1 2 acc pid ts show ?thesis by (simp add: accepted_round_fields)
      next
        case False
        with 1 2 acc show ?thesis by (simp add: accepted_round_fields)
      qed
    next
      case False
      have look: "map_of (sessions m1) sid = Some s"
        using upd False Cons.prems(1) by (simp add: update_conv')
      have acc: "accepted_for sid lg = accepted_for sid lg1"
        using lg g False by (simp add: accepted_for_def)
      from Cons.IH[OF look run] acc show ?thesis by simp
    qed
  qed
qed

text \<open>
  C10. Whenever \<open>processBuzz\<close> returns an error, whichever of the six it is, the
  registry of sessions is the one before the call: no session's round state (status,
  question number, start and lock times, active player, buzz queue) has changed.
\<close>

theorem processBuzz_error_keeps_round:
  "processBuzz now sock m = (Inl e, m') \<Longrightarrow>
     e \<in> {PlayerNotFound, BuzzerNotActive, AlreadyBuzzed, TooFast, TeamAlreadyBuzzed,
          BuzzerLocked}
     \<and> sessions m' = sessions m
     \<and> map_option roundState (map_of (sessions m') sid)
         = map_option roundState (map_of (sessions m) sid)"
proof -
  assume a: "processBuzz now sock m = (Inl e, m')"
  then have "sessions m' = sessions m" by (rule processBuzz_error_sessions)
  moreover from a have "e \<in> {PlayerNotFound, BuzzerNotActive, AlreadyBuzzed, TooFast,
      TeamAlreadyBuzzed, BuzzerLocked}"
    by (auto simp: processBuzz_def Let_def split: option.splits prod.splits if_splits)
  ultimately show ?thesis by simp
qed

theorem processBuzz_error_keeps_round_witness:
  "fst (processBuzz 150 ''sA'' (snd (processBuzz 100 ''sA'' manager0))) = Inl AlreadyBuzzed
   \<and> sessions (snd (processBuzz 150 ''sA'' (snd (processBuzz 100 ''sA'' manager0))))
       = sessions (snd (processBuzz 100 ''sA'' manager0))"
  using processBuzz_error_keeps_round [of 150 "''sA''" "snd (processBuzz 100 ''sA'' manager0)"
      AlreadyBuzzed "snd (processBuzz 150 ''sA'' (snd (processBuzz 100 ''sA'' manager0)))"
      "''AAAAAA''"]
  by (simp add: buzz_defs example_defs)

text \<open>
  C1. An accepted buzz is stamped with the server's time \<open>now\<close>, gets position
  queue length + 1 and is appended to the queue of the buzzer's session; in phase open
  the round becomes locked, with \<open>lockedAt = now\<close> and the buzzer as active player, and
  in any other phase the phase, the lock time and the active player stay as they are.
  Hence, from a round with an empty queue, after any sequence of buzz attempts the queue
  holds exactly the accepted entries in the order of acceptance, with positions
  \<open>1..k\<close>, and if the round was open and a buzz was accepted it is locked on the first
  accepted buzzer.
\<close>

theorem processBuzz_accepted_order:
  "(processBuzz now sock m = (Inr e, m1) \<longrightarrow>
      (\<exists>sid p s s1.
          getPlayerBySocketId sock m = Some (sid, p, s) \<and> map_of (sessions m1) sid = Some s1
        \<and> playerId e = player_id p \<and> timestamp e = now
        \<and> position e = length (buzzQueue (roundState s)) + 1
        \<and> buzzQueue (roundState s1) = buzzQueue (roundState s) @ [e]
        \<and> (status (roundState s) = Open \<longrightarrow>
              status (roundState s1) = Locked \<and> lockedAt (roundState s1) = Some now
            \<and> activePlayerId (roundState s1) = Some (player_id p))
        \<and> (status (roundState s) \<noteq> Open \<longrightarrow>
              status (roundState s1) = status (roundState s)
            \<and> lockedAt (roundState s1) = lockedAt (roundState s)
            \<and> activePlayerId (roundState s1) = activePlayerId (roundState s))))
   \<and> (map_of (sessions m0) sid0 = Some s0 \<and> buzzQueue (roundState s0) = []
        \<and> processBuzzes attempts m0 = (lg, m2) \<longrightarrow>
      (\<exists>s2.
          map_of (sessions m2) sid0 = Some s2
        \<and> buzzQueue (roundState s2) = accepted_for sid0 lg
        \<and> map position (buzzQueue (roundState s2)) = [1 ..< length (accepted_for sid0 lg) + 1]
        \<and> (status (roundState s0) = Open \<and> accepted_for sid0 lg \<noteq> [] \<longrightarrow>
              status (roundState s2) = Locked
            \<and> lockedAt (roundState s2) = Some (timestamp (hd (accepted_for sid0 lg)))
            \<and> activePlayerId (roundState s2) = Some (playerId (hd (accepted_for sid0 lg))))))"
proof (intro conjI impI)
  assume a: "processBuzz now sock m = (Inr e, m1)"
  from processBuzz_accept[OF a] obtain sid p s where
    g: "getPlayerBySocketId sock m = Some (sid, p, s)"
    and e: "playerId e = player_id p" "timestamp e = now"
           "position e = length (buzzQueue (roundState s)) + 1"
    and upd: "sessions m1 = AList.update sid
                (s\<lparr>roundState := accepted_round now p (roundState s) e\<rparr>) (sessions m)"
    by blast
  let ?s1 = "s\<lparr>roundState := accepted_round now p (roundState s) e\<rparr>"
  have "map_of (sessions m1) sid = Some ?s1"
    using upd by (simp add: update_conv')
  with g e show "\<exists>sid p s s1.
          getPlayerBySocketId sock m = Some (sid, p, s) \<and> map_of (sessions m1) sid = Some s1
        \<and> playerId e = player_id p \<and> timestamp e = now
        \<and> position e = length (buzzQueue (roundState s)) + 1
        \<and> buzzQueue (roundState s1) = buzzQueue (roundState s) @ [e]
        \<and> (status (roundState s) = Open \<longrightarrow>
              status (roundState s1) = Locked \<and> lockedAt (roundState s1) = Some now
            \<and> activePlayerId (roundState s1) = Some (player_id p))
        \<and> (status (roundState s) \<noteq> Open \<longrightarrow>
              status (roundState s1) = status (roundState s)
            \<and> lockedAt (roundState s1) = lockedAt (roundState s)
            \<and> activePlayerId (roundState s1) = activePlayerId (roundState s))"
    by (simp add: accepted_round_queue accepted_round_fields)
next
  assume a: "map_of (sessions m0) sid0 = Some s0 \<and> buzzQueue (roundState s0) = []
        \<and> processBuzzes attempts m0 = (lg, m2)"
  then have look: "map_of (sessions m0) sid0 = Some s0" and empty: "buzzQueue (roundState s0) = []"
    and run: "processBuzzes attempts m0 = (lg, m2)" by simp_all
  from processBuzzes_queue[OF look run] empty obtain s2 where
    1: "map_of (sessions m2) sid0 = Some s2"
    and 2: "buzzQueue (roundState s2) = accepted_for sid0 lg"
    and 3: "map position (accepted_for sid0 lg) = [1 ..< length (accepted_for sid0 lg) + 1]"
    by auto
  from processBuzzes_phase[OF look run] 1 have
    "status (roundState s0) = Open \<and> accepted_for sid0 lg \<noteq> [] \<longrightarrow>
              status (roundState s2) = Locked
            \<and> lockedAt (roundState s2) = Some (timestamp (hd (accepted_for sid0 lg)))
            \<and> activePlayerId (roundState s2) = Some (playerId (hd (accepted_for sid0 lg)))"
    by auto
  with 1 2 3 show "\<exists>s2.
          map_of (sessions m2) sid0 = Some s2
        \<and> buzzQueue (roundState s2) = accepted_for sid0 lg
        \<and> map position (buzzQueue (roundState s2)) = [1 ..< length (accepted_for sid0 lg) + 1]
        \<and> (status (roundState s0) = Open \<and> accepted_for sid0 lg \<noteq> [] \<longrightarrow>
              status (roundState s2) = Locked
            \<and> lockedAt (roundState s2) = Some (timestamp (hd (accepted_for sid0 lg)))
            \<and> activePlayerId (roundState s2) = Some (playerId (hd (accepted_for sid0 lg))))"
    by simp
qed

theorem processBuzz_accepted_order_witness:
  "fst (processBuzz 105 ''sB'' (snd (processBuzz 100 ''sA'' manager0)))
     = Inr \<lparr>playerId = ''pB'', playerName = ''Bob'', teamId = None, teamName = None,
            teamColor = None, timestamp = 105, position = 2\<rparr>
   \<and> map_of (sessions manager0) ''AAAAAA'' = Some session0
   \<and> buzzQueue (roundState session0) = []
   \<and> status (roundState session0) = Open
   \<and> map playerId (accepted_for ''AAAAAA''
        (fst (processBuzzes [(100, ''sA''), (101, ''sA''), (105, ''sB'')] manager0)))
       = [''pA'', ''pB'']
   \<and> (\<exists>s2. map_of (sessions (snd (processBuzzes [(100, ''sA''), (101, ''sA''), (105, ''sB'')]
                                       manager0))) ''AAAAAA'' = Some s2
          \<and> map position (buzzQueue (roundState s2)) = [1, 2]
          \<and> status (roundState s2) = Locked
          \<and> lockedAt (roundState s2) = Some 100
          \<and> activePlayerId (roundState s2) = Some ''pA'')"
  using processBuzz_accepted_order [of 105 "''sB''" "snd (processBuzz 100 ''sA'' manager0)"
      "\<lparr>playerId = ''pB'', playerName = ''Bob'', teamId = None, teamName = None,
        teamColor = None, timestamp = 105, position = 2\<rparr>"
      "snd (processBuzz 105 ''sB'' (snd (processBuzz 100 ''sA'' manager0)))"
      manager0 "''AAAAAA''" session0 "[(100, ''sA''), (101, ''sA''), (105, ''sB'')]"
      "fst (processBuzzes [(100, ''sA''), (101, ''sA''), (105, ''sB'')] manager0)"
      "snd (processBuzzes [(100, ''sA''), (101, ''sA''), (105, ''sB'')] manager0)"]
  by (simp add: buzz_defs example_defs accepted_for_def)

section \<open>Rate limiting\<close>

lemma getPlayerBySocketId_cong:
  assumes "getPlayerBySocketId sock m = Some (sid, p, s)"
    and "socketToPlayer m1 = socketToPlayer m" and "playerToSession m1 = playerToSession m"
    and "map_of (sessions m1) sid = Some s1" and "players s1 = players s"
  shows "getPlayerBySocketId sock m1 = Some (sid, p, s1)"
  using assms by (auto simp: getPlayerBySocketId_def split: option.splits if_splits)

lemma processBuzz_accept_state:
  assumes a: "processBuzz now sock m = (Inr e, m1)"
    and g: "getPlayerBySocketId sock m = Some (sid, p, s)"
  shows "socketToPlayer m1 = socketToPlayer m" "playerToSession m1 = playerToSession m"
    "playerBuzzTimestamps m1 = AList.update (player_id p) now (playerBuzzTimestamps m)"
    "map_of (sessions m1) sid = Some (s\<lparr>roundState := accepted_round now p (roundState s) e\<rparr>)"
    "playerId e = player_id p"
  using a by (auto simp: processBuzz_def g Let_def accepted_round_def update_conv' split: if_splits)

lemma second_attempt_rejected:
  assumes a: "processBuzz now sock m = (Inr e, m1)"
    and g: "getPlayerBySocketId sock m = Some (sid, p, s)"
    and nz: "now \<noteq> 0" and w: "now2 - now < buzzCooldownMs (settings s)"
  shows "fst (processBuzz now2 sock m1) = Inl AlreadyBuzzed"
    and "fst (processBuzz now2 sock (snd (startRound t sid m1))) = Inl TooFast"
proof -
  note st = processBuzz_accept_state[OF a g]
  let ?s1 = "s\<lparr>roundState := accepted_round now p (roundState s) e\<rparr>"
  have g1: "getPlayerBySocketId sock m1 = Some (sid, p, ?s1)"
    by (rule getPlayerBySocketId_cong[OF g st(1) st(2) st(4)]) simp
  have st1: "status (roundState ?s1) = Locked"
    using a by (auto simp: processBuzz_def g Let_def accepted_round_def split: if_splits)
  show "fst (processBuzz now2 sock m1) = Inl AlreadyBuzzed"
    using st(5) st1 by (simp add: processBuzz_def g1 Let_def accepted_round_queue)
  let ?r2 = "\<lparr>status = Open, questionNumber = questionNumber (roundState ?s1) + 1,
              startedAt = Some t, lockedAt = None, activePlayerId = None, buzzQueue = []\<rparr>"
  let ?s2 = "?s1\<lparr>roundState := ?r2\<rparr>"
  let ?m2 = "snd (startRound t sid m1)"
  have m2: "socketToPlayer ?m2 = socketToPlayer m1" "playerToSession ?m2 = playerToSession m1"
    "playerBuzzTimestamps ?m2 = playerBuzzTimestamps m1"
    "map_of (sessions ?m2) sid = Some ?s2"
    using st(4) by (simp_all add: startRound_def Let_def update_conv')
  have g2: "getPlayerBySocketId sock ?m2 = Some (sid, p, ?s2)"
    by (rule getPlayerBySocketId_cong[OF g1 m2(1) m2(2) m2(4)]) simp
  show "fst (processBuzz now2 sock ?m2) = Inl TooFast"
    using nz w by (simp add: processBuzz_def g2 Let_def m2(3) st(3) update_conv')
qed

text \<open>
  C2, as the claim states it, fails. Bob has no accepted buzz. His attempt at time 1000
  is rejected because the buzzer is locked, yet it records the time 1000 for him; in the
  next round his attempt at time 1050 is rejected as too fast, although no accepted buzz
  of his lies within the cooldown of 100 ms.
\<close>

theorem rate_limit_accepted_only_counterexample:
  "map_of (playerBuzzTimestamps manager_locked) ''pB'' = None
   \<and> fst (processBuzz 1000 ''sB'' manager_locked) = Inl BuzzerLocked
   \<and> map_of (playerBuzzTimestamps (snd (processBuzz 1000 ''sB'' manager_locked))) ''pB''
       = Some 1000
   \<and> fst (processBuzz 1050 ''sB''
        (snd (startRound 1010 ''AAAAAA'' (snd (processBuzz 1000 ''sB'' manager_locked)))))
       = Inl TooFast"
  by (simp add: manager_locked_def manager_nolate_def session_nolate_def startRound_def
      buzz_defs example_defs)

text \<open>
  C2, amended. For a resolved player, \<open>processBuzz\<close> answers too fast exactly when the
  buzzer is active, the player has no entry in the queue, and a non-zero time recorded
  for the player lies less than \<open>buzzCooldownMs\<close> before \<open>now\<close>. The time is recorded
  by every attempt that passes this check: by an accepted buzz, and also by an attempt
  that is then rejected because the team has buzzed or the buzzer is locked. An attempt
  is accepted exactly when no check rejects it, so an otherwise admissible attempt with
  no recorded time inside the window succeeds. After an accepted buzz at a non-zero time,
  an attempt of the same player within the cooldown is rejected: as a duplicate in the
  same round, as too fast once a new round has started.
\<close>

theorem processBuzz_rate_limit:
  assumes g: "getPlayerBySocketId sock m = Some (sid, p, s)"
    and r: "processBuzz now sock m = (res, m')"
  shows "(res = Inl TooFast \<longleftrightarrow>
            (status (roundState s) = Open \<or> status (roundState s) = Locked)
          \<and> \<not> list_ex (\<lambda>b. playerId b = player_id p) (buzzQueue (roundState s))
          \<and> (\<exists>t. map_of (playerBuzzTimestamps m) (player_id p) = Some t \<and> t \<noteq> 0
                 \<and> now - t < buzzCooldownMs (settings s)))
   \<and> playerBuzzTimestamps m' =
          (if res \<in> {Inl BuzzerNotActive, Inl AlreadyBuzzed, Inl TooFast}
           then playerBuzzTimestamps m
           else AList.update (player_id p) now (playerBuzzTimestamps m))
   \<and> ((\<exists>e. res = Inr e) \<longleftrightarrow>
            (status (roundState s) = Open \<or> status (roundState s) = Locked)
          \<and> \<not> list_ex (\<lambda>b. playerId b = player_id p) (buzzQueue (roundState s))
          \<and> \<not> (\<exists>t. map_of (playerBuzzTimestamps m) (player_id p) = Some t \<and> t \<noteq> 0
                 \<and> now - t < buzzCooldownMs (settings s))
          \<and> \<not> (oneBuzzPerTeam (settings s) \<and> truthy (player_teamId p)
                 \<and> list_ex (\<lambda>b. teamId b = player_teamId p) (buzzQueue (roundState s)))
          \<and> \<not> (status (roundState s) = Locked \<and> \<not> allowLateBuzzes (settings s)))
   \<and> ((\<exists>e. res = Inr e) \<and> now \<noteq> 0 \<and> now2 - now < buzzCooldownMs (settings s) \<longrightarrow>
          fst (processBuzz now2 sock m') = Inl AlreadyBuzzed
        \<and> fst (processBuzz now2 sock (snd (startRound t sid m'))) = Inl TooFast)
   \<and> buzzCooldownMs DEFAULT_SETTINGS = 100"
proof (intro conjI impI)
  show "buzzCooldownMs DEFAULT_SETTINGS = 100"
    by (simp add: DEFAULT_SETTINGS_def)
  show "res = Inl TooFast \<longleftrightarrow>
            (status (roundState s) = Open \<or> status (roundState s) = Locked)
          \<and> \<not> list_ex (\<lambda>b. playerId b = player_id p) (buzzQueue (roundState s))
          \<and> (\<exists>t. map_of (playerBuzzTimestamps m) (player_id p) = Some t \<and> t \<noteq> 0
                 \<and> now - t < buzzCooldownMs (settings s))"
    using r by (auto simp: processBuzz_def g Let_def split: if_splits option.splits)
  show "playerBuzzTimestamps m' =
          (if res \<in> {Inl BuzzerNotActive, Inl AlreadyBuzzed, Inl TooFast}
           then playerBuzzTimestamps m
           else AList.update (player_id p) now (playerBuzzTimestamps m))"
    using r by (auto simp: processBuzz_def g Let_def split: if_splits option.splits)
  show "(\<exists>e. res = Inr e) \<longleftrightarrow>
            (status (roundState s) = Open \<or> status (roundState s) = Locked)
          \<and> \<not> list_ex (\<lambda>b. playerId b = player_id p) (buzzQueue (roundState s))
          \<and> \<not> (\<exists>t. map_of (playerBuzzTimestamps m) (player_id p) = Some t \<and> t \<noteq> 0
                 \<and> now - t < buzzCooldownMs (settings s))
          \<and> \<not> (oneBuzzPerTeam (settings s) \<and> truthy (player_teamId p)
                 \<and> list_ex (\<lambda>b. teamId b = player_teamId p) (buzzQueue (roundState s)))
          \<and> \<not> (status (roundState s) = Locked \<and> \<not> allowLateBuzzes (settings s))"
    using r by (auto simp: processBuzz_def g Let_def split: if_splits option.splits)
next
  assume a: "(\<exists>e. res = Inr e) \<and> now \<noteq> 0 \<and> now2 - now < buzzCooldownMs (settings s)"
  then obtain e where e: "processBuzz now sock m = (Inr e, m')" using r by auto
  from a second_attempt_rejected[OF e g] show
    "fst (processBuzz now2 sock m') = Inl AlreadyBuzzed"
    "fst (processBuzz now2 sock (snd (startRound t sid m'))) = Inl TooFast"
    by simp_all
qed

theorem processBuzz_rate_limit_witness:
  "getPlayerBySocketId ''sA'' manager0 = Some (''AAAAAA'', playerA, session0)
   \<and> (\<exists>e. fst (processBuzz 100 ''sA'' manager0) = Inr e)
   \<and> playerBuzzTimestamps (snd (processBuzz 100 ''sA'' manager0)) = [(''pA'', 100)]
   \<and> fst (processBuzz 150 ''sA'' (snd (processBuzz 100 ''sA'' manager0))) = Inl AlreadyBuzzed
   \<and> fst (processBuzz 150 ''sA''
        (snd (startRound 120 ''AAAAAA'' (snd (processBuzz 100 ''sA'' manager0))))) = Inl TooFast
   \<and> (\<exists>e. fst (processBuzz 200 ''sA''
        (snd (startRound 120 ''AAAAAA'' (snd (processBuzz 100 ''sA'' manager0))))) = Inr e)"
proof -
  have g: "getPlayerBySocketId ''sA'' manager0 = Some (''AAAAAA'', playerA, session0)"
    by (simp add: buzz_defs example_defs)
  have r: "processBuzz 100 ''sA'' manager0
             = (fst (processBuzz 100 ''sA'' manager0), snd (processBuzz 100 ''sA'' manager0))"
    by simp
  have late: "\<exists>e. fst (processBuzz 200 ''sA''
        (snd (startRound 120 ''AAAAAA'' (snd (processBuzz 100 ''sA'' manager0))))) = Inr e"
    by (simp add: startRound_def buzz_defs example_defs)
  from processBuzz_rate_limit[OF g r, of 150 120] g late show ?thesis
    by (simp add: buzz_defs example_defs)
qed

section \<open>Pass, skip and kick\<close>

lemmas queue_defs = manager_A_def manager_AB_def

lemmas queue_op_defs = markPass_def skipPlayer_def removePlayer_def advanceQueue_def renumber_def

lemma renumber_positions: "map position (renumber q) = [1 ..< length q + 1]"
proof -
  have "map position (renumber q) = map (Suc \<circ> fst) (enumerate 0 q)"
    by (simp add: renumber_def case_prod_unfold comp_def)
  also have "\<dots> = map Suc (map fst (enumerate 0 q))"
    by (simp only: map_map)
  also have "\<dots> = map Suc [0 ..< length q]"
    by (simp only: map_fst_enumerate add_0)
  also have "\<dots> = [Suc 0 ..< Suc (length q)]"
    by (simp only: map_Suc_upt)
  finally show ?thesis by (simp del: upt_Suc)
qed

lemma renumber_playerId: "map playerId (renumber q) = map playerId q"
proof -
  have "map playerId (renumber q) = map (playerId \<circ> snd) (enumerate 0 q)"
    by (simp add: renumber_def case_prod_unfold comp_def)
  also have "\<dots> = map playerId (map snd (enumerate 0 q))"
    by (simp only: map_map)
  finally show ?thesis by (simp only: map_snd_enumerate)
qed

lemma renumber_length: "length (renumber q) = length q"
  by (simp add: renumber_def)

lemma skipPlayer_positions:
  assumes "map_of (sessions m) sid = Some s"
  shows "\<exists>s'. map_of (sessions (snd (skipPlayer sid pid m))) sid = Some s'
           \<and> map playerId (buzzQueue (roundState s'))
               = filter (\<lambda>x. x \<noteq> pid) (map playerId (buzzQueue (roundState s)))
           \<and> map position (buzzQueue (roundState s'))
               = [1 ..< length (buzzQueue (roundState s')) + 1]"
  using assms
  by (simp add: skipPlayer_def Let_def update_conv' advanceQueue_def renumber_positions
      renumber_playerId renumber_length filter_map comp_def del: upt_Suc)

lemma markPass_positions:
  assumes "map_of (sessions m) sid = Some s" "activePlayerId (roundState s) = Some a" "a \<noteq> []"
  shows "\<exists>s'. map_of (sessions (snd (markPass sid m))) sid = Some s'
           \<and> fst (markPass sid m) = Some (a, activePlayerId (roundState s'))
           \<and> map playerId (buzzQueue (roundState s'))
               = filter (\<lambda>x. x \<noteq> a) (map playerId (buzzQueue (roundState s)))
           \<and> map position (buzzQueue (roundState s'))
               = [1 ..< length (buzzQueue (roundState s')) + 1]
           \<and> activePlayerId (roundState s')
               = (case buzzQueue (roundState s') of [] \<Rightarrow> None | b # _ \<Rightarrow> Some (playerId b))
           \<and> status (roundState s') = status (roundState s)"
  using assms
  by (simp add: markPass_def Let_def update_conv' renumber_positions
      renumber_playerId renumber_length filter_map comp_def del: upt_Suc)

text \<open>
  C3. \<open>markPass\<close> removes the active player's entry, renumbers the rest from 1 and makes
  the new head the active player (lemma \<open>markPass_positions\<close>), but it never changes
  the phase. With Ann the only queued player, passing her leaves the round locked with
  an empty queue and no active player, where the claim says waiting; skipping or kicking
  her in the same state, which goes through \<open>advanceQueue\<close>, gives waiting.
\<close>

theorem markPass_last_entry_stays_locked:
  "map_option roundState (map_of (sessions manager_A) ''AAAAAA'')
     = Some \<lparr>status = Locked, questionNumber = 1, startedAt = Some 50, lockedAt = Some 100,
             activePlayerId = Some ''pA'',
             buzzQueue = [\<lparr>playerId = ''pA'', playerName = ''Ann'', teamId = Some ''t1'',
                           teamName = Some ''Red'', teamColor = Some ''#FF2D55'',
                           timestamp = 100, position = 1\<rparr>]\<rparr>
   \<and> fst (markPass ''AAAAAA'' manager_A) = Some (''pA'', None)
   \<and> map_option roundState (map_of (sessions (snd (markPass ''AAAAAA'' manager_A))) ''AAAAAA'')
     = Some \<lparr>status = Locked, questionNumber = 1, startedAt = Some 50, lockedAt = Some 100,
             activePlayerId = None, buzzQueue = []\<rparr>
   \<and> map_option (status \<circ> roundState)
        (map_of (sessions (snd (skipPlayer ''AAAAAA'' ''pA'' manager_A))) ''AAAAAA'')
       = Some Waiting
   \<and> map_option (status \<circ> roundState)
        (map_of (sessions (snd (removePlayer ''AAAAAA'' ''pA'' manager_A))) ''AAAAAA'')
       = Some Waiting"
  by (simp add: queue_defs queue_op_defs buzz_defs example_defs)

text \<open>
  C4. \<open>skipPlayer\<close> and \<open>markPass\<close> renumber the queue (lemmas \<open>skipPlayer_positions\<close>
  and \<open>markPass_positions\<close>); \<open>removePlayer\<close> filters the queue and does not. With Ann
  at position 1 and Bob at position 2, kicking Ann leaves Bob alone in the queue at
  position 2, where the claim says position 1; skipping or passing Ann gives position 1.
\<close>

theorem removePlayer_leaves_gap:
  "map_option (map position \<circ> buzzQueue \<circ> roundState)
       (map_of (sessions manager_AB) ''AAAAAA'') = Some [1, 2]
   \<and> map_option (map position \<circ> buzzQueue \<circ> roundState)
       (map_of (sessions (snd (removePlayer ''AAAAAA'' ''pA'' manager_AB))) ''AAAAAA'')
      = Some [2]
   \<and> map_option (map position \<circ> buzzQueue \<circ> roundState)
       (map_of (sessions (snd (skipPlayer ''AAAAAA'' ''pA'' manager_AB))) ''AAAAAA'')
      = Some [1]
   \<and> map_option (map position \<circ> buzzQueue \<circ> roundState)
       (map_of (sessions (snd (markPass ''AAAAAA'' manager_AB))) ''AAAAAA'')
      = Some [1]"
  by (simp add: queue_defs queue_op_defs buzz_defs example_defs)

section \<open>Joining\<close>

lemmas string_defs = toLowerCase_def lower_char_def trim_def slice0_def is_space_def

lemma find_Some_ex: "(\<exists>x. find P xs = Some x) \<longleftrightarrow> (\<exists>x \<in> set xs. P x)"
  by (induction xs) auto

text \<open>
  C5, as the claim states it, fails. The session has room for three players and holds
  three, of whom only two are connected; a join is rejected as session full although
  the connected count 2 is below the maximum 3.
\<close>

theorem addPlayer_capacity_connected_counterexample:
  "map_of (sessions manager_small) ''AAAAAA'' = Some session_small
   \<and> maxPlayersPerSession (settings session_small) = 3
   \<and> length (filter isConnected (map snd (players session_small))) = 2
   \<and> fst (addPlayer 200 ''pD'' ''AAAAAA'' ''sD'' ''Dee'' manager_small) = Inl SessionFull"
  by (simp add: addPlayer_def manager_small_def session_small_def example_defs)

text \<open>
  C5, amended. On an existing session \<open>addPlayer\<close> fails with session full exactly when
  the number of players of the session, connected or not, is greater than or equal to
  \<open>maxPlayersPerSession\<close> (default 50).
\<close>

theorem addPlayer_capacity:
  "map_of (sessions m) sid = Some s \<Longrightarrow>
     (fst (addPlayer now uuid sid sock name m) = Inl SessionFull
        \<longleftrightarrow> maxPlayersPerSession (settings s) \<le> int (length (players s)))
   \<and> length (players s)
       = length (filter (\<lambda>p. isConnected p) (map snd (players s)))
         + length (filter (\<lambda>p. \<not> isConnected p) (map snd (players s)))
   \<and> maxPlayersPerSession DEFAULT_SETTINGS = 50"
proof -
  assume look: "map_of (sessions m) sid = Some s"
  then have "fst (addPlayer now uuid sid sock name m) = Inl SessionFull
        \<longleftrightarrow> maxPlayersPerSession (settings s) \<le> int (length (players s))"
    by (auto simp: addPlayer_def Let_def split: option.splits)
  moreover have "length (players s)
       = length (filter (\<lambda>p. isConnected p) (map snd (players s)))
         + length (filter (\<lambda>p. \<not> isConnected p) (map snd (players s)))"
    using sum_length_filter_compl[of "\<lambda>p. isConnected p" "map snd (players s)"] by simp
  ultimately show ?thesis by (simp add: DEFAULT_SETTINGS_def)
qed

theorem addPlayer_capacity_witness:
  "map_of (sessions manager_small) ''AAAAAA'' = Some session_small
   \<and> fst (addPlayer 200 ''pD'' ''AAAAAA'' ''sD'' ''Dee'' manager_small) = Inl SessionFull
   \<and> maxPlayersPerSession (settings session_small) \<le> int (length (players session_small))
   \<and> map_of (sessions manager0) ''AAAAAA'' = Some session0
   \<and> fst (addPlayer 200 ''pD'' ''AAAAAA'' ''sD'' ''Dee'' manager0) \<noteq> Inl SessionFull
   \<and> \<not> maxPlayersPerSession (settings session0) \<le> int (length (players session0))"
  using addPlayer_capacity [of manager_small "''AAAAAA''" session_small 200 "''pD''" "''sD''"
      "''Dee''"]
    addPlayer_capacity [of manager0 "''AAAAAA''" session0 200 "''pD''" "''sD''" "''Dee''"]
  by (simp add: manager_small_def session_small_def example_defs)

text \<open>
  C8, as the claim states it for every session, fails. The session has room for three
  players and holds three, Cy among them disconnected. Joining under Cy's name does not
  succeed, and joining under the name of the connected Ann does not fail with name taken:
  both are rejected as session full, before the name check is reached.
\<close>

theorem addPlayer_name_full_session_counterexample:
  "map_of (sessions manager_small) ''AAAAAA'' = Some session_small
   \<and> map_of (players session_small) ''pC'' = Some playerC
   \<and> isConnected playerC = False
   \<and> toLowerCase (displayName playerC) = toLowerCase ''Cy''
   \<and> fst (addPlayer 200 ''pD'' ''AAAAAA'' ''sD'' ''Cy'' manager_small) = Inl SessionFull
   \<and> map_of (players session_small) ''pA'' = Some playerA
   \<and> isConnected playerA = True
   \<and> toLowerCase (displayName playerA) = toLowerCase ''ANN''
   \<and> fst (addPlayer 200 ''pD'' ''AAAAAA'' ''sD'' ''ANN'' manager_small) = Inl SessionFull"
  by (simp add: addPlayer_def manager_small_def session_small_def example_defs string_defs)

text \<open>
  C8, amended. The name check considers only connected players. In an existing session
  whose number of players is below \<open>maxPlayersPerSession\<close>, \<open>addPlayer\<close> fails with name
  taken, changing nothing, exactly when a connected player's display name equals the
  given name up to case. Otherwise it succeeds, in particular under a name that only
  disconnected players have: the new player, connected and without a team, is added to
  the session under the fresh id, no other player changes, and the lookups from the
  socket to the player and from the player to the session are registered. The names are
  ASCII strings, on which \<open>toLowerCase\<close> is the JavaScript function.
\<close>

theorem addPlayer_name_check_connected_only:
  assumes look: "map_of (sessions m) sid = Some s"
    and room: "int (length (players s)) < maxPlayersPerSession (settings s)"
    and ascii: "is_ascii name" "list_all (\<lambda>p. is_ascii (displayName p)) (map snd (players s))"
  shows "(fst (addPlayer now uuid sid sock name m) = Inl NameTaken
           \<longleftrightarrow> (\<exists>p \<in> snd ` set (players s).
                  isConnected p \<and> toLowerCase (displayName p) = toLowerCase name))
    \<and> ((\<exists>r. fst (addPlayer now uuid sid sock name m) = Inr r)
           \<longleftrightarrow> \<not> (\<exists>p \<in> snd ` set (players s).
                  isConnected p \<and> toLowerCase (displayName p) = toLowerCase name))
    \<and> ((\<exists>p \<in> snd ` set (players s).
            isConnected p \<and> toLowerCase (displayName p) = toLowerCase name)
         \<longrightarrow> addPlayer now uuid sid sock name m = (Inl NameTaken, m))
    \<and> (\<not> (\<exists>p \<in> snd ` set (players s).
            isConnected p \<and> toLowerCase (displayName p) = toLowerCase name)
         \<longrightarrow> (\<exists>player s'.
               fst (addPlayer now uuid sid sock name m) = Inr (player, s')
             \<and> player = \<lparr>player_id = uuid, socketId = sock,
                           displayName = slice0 20 (trim name), player_teamId = None,
                           isConnected = True, lastSeen = now\<rparr>
             \<and> s' = s\<lparr>players := AList.update uuid player (players s)\<rparr>
             \<and> map_of (sessions (snd (addPlayer now uuid sid sock name m))) sid = Some s'
             \<and> map_of (players s') uuid = Some player
             \<and> (\<forall>k. k \<noteq> uuid \<longrightarrow> map_of (players s') k = map_of (players s) k)
             \<and> map_of (playerToSession (snd (addPlayer now uuid sid sock name m))) uuid
                 = Some sid
             \<and> map_of (socketToPlayer (snd (addPlayer now uuid sid sock name m))) sock
                 = Some uuid))"
proof -
  let ?P = "\<lambda>p. toLowerCase (displayName p) = toLowerCase name \<and> isConnected p"
  have ex: "(\<exists>x. find ?P (map snd (players s)) = Some x)
              \<longleftrightarrow> (\<exists>p \<in> snd ` set (players s).
                     isConnected p \<and> toLowerCase (displayName p) = toLowerCase name)"
    unfolding find_Some_ex by auto
  show ?thesis
  proof (cases "find ?P (map snd (players s))")
    case None
    with ex look room show ?thesis by (simp add: addPlayer_def Let_def update_conv')
  next
    case (Some x)
    with ex look room show ?thesis by (simp add: addPlayer_def Let_def)
  qed
qed

theorem addPlayer_name_check_connected_only_witness:
  "map_of (sessions manager0) ''AAAAAA'' = Some session0
   \<and> int (length (players session0)) < maxPlayersPerSession (settings session0)
   \<and> is_ascii ''BOB'' \<and> is_ascii ''cy''
   \<and> list_all (\<lambda>p. is_ascii (displayName p)) (map snd (players session0))
   \<and> addPlayer 200 ''pD'' ''AAAAAA'' ''sD'' ''BOB'' manager0 = (Inl NameTaken, manager0)
   \<and> snd (disconnectPlayer 150 ''sB'' manager0)
       = manager0\<lparr>sessions := [(''AAAAAA'', session_Bob_away)]\<rparr>
   \<and> int (length (players session_Bob_away)) < maxPlayersPerSession (settings session_Bob_away)
   \<and> list_all (\<lambda>p. is_ascii (displayName p)) (map snd (players session_Bob_away))
   \<and> map_option (map fst \<circ> players)
        (map_of (sessions (snd (addPlayer 200 ''pD'' ''AAAAAA'' ''sD'' ''BOB''
              (snd (disconnectPlayer 150 ''sB'' manager0))))) ''AAAAAA'')
       = Some [''pA'', ''pB'', ''pC'', ''pD'']
   \<and> map_option (\<lambda>s. map_of (players s) ''pD'')
        (map_of (sessions (snd (addPlayer 200 ''pD'' ''AAAAAA'' ''sD'' ''BOB''
              (snd (disconnectPlayer 150 ''sB'' manager0))))) ''AAAAAA'')
       = Some (Some \<lparr>player_id = ''pD'', socketId = ''sD'', displayName = ''BOB'',
                      player_teamId = None, isConnected = True, lastSeen = 200\<rparr>)
   \<and> map_of (socketToPlayer (snd (addPlayer 200 ''pD'' ''AAAAAA'' ''sD'' ''BOB''
              (snd (disconnectPlayer 150 ''sB'' manager0))))) ''sD'' = Some ''pD''
   \<and> (\<exists>r. fst (addPlayer 200 ''pD'' ''AAAAAA'' ''sD'' ''cy'' manager0) = Inr r)"
proof -
  have look0: "map_of (sessions manager0) ''AAAAAA'' = Some session0"
    and room0: "int (length (players session0)) < maxPlayersPerSession (settings session0)"
    and asc0: "list_all (\<lambda>p. is_ascii (displayName p)) (map snd (players session0))"
    by (simp_all add: example_defs is_ascii_def)
  have ascn: "is_ascii ''BOB''" "is_ascii ''cy''"
    by (simp_all add: is_ascii_def)
  have away: "snd (disconnectPlayer 150 ''sB'' manager0)
       = manager0\<lparr>sessions := [(''AAAAAA'', session_Bob_away)]\<rparr>"
    by (simp add: disconnectPlayer_def session_Bob_away_def buzz_defs example_defs)
  have look1: "map_of (sessions (snd (disconnectPlayer 150 ''sB'' manager0))) ''AAAAAA''
                 = Some session_Bob_away"
    by (simp add: away)
  have room1: "int (length (players session_Bob_away))
                 < maxPlayersPerSession (settings session_Bob_away)"
    and asc1: "list_all (\<lambda>p. is_ascii (displayName p)) (map snd (players session_Bob_away))"
    by (simp_all add: session_Bob_away_def example_defs is_ascii_def)
  from addPlayer_name_check_connected_only [OF look0 room0 ascn(1) asc0, of 200 "''pD''" "''sD''"]
    addPlayer_name_check_connected_only [OF look0 room0 ascn(2) asc0, of 200 "''pD''" "''sD''"]
    addPlayer_name_check_connected_only [OF look1 room1 ascn(1) asc1, of 200 "''pD''" "''sD''"]
    look0 room0 asc0 ascn away room1 asc1
  show ?thesis
    by (simp add: session_Bob_away_def example_defs string_defs)
qed

section \<open>Staleness sweep\<close>

lemma lastActivity_Max:
  "lastActivity s = Max (insert (createdAt s) ((lastSeen \<circ> snd) ` set (players s)))"
proof -
  have "fold max (map (lastSeen \<circ> snd) (players s)) (createdAt s)
          = Max (set (createdAt s # map (lastSeen \<circ> snd) (players s)))"
    by (rule Max.set_eq_fold[symmetric])
  then show ?thesis by (simp add: lastActivity_def)
qed

lemma sessions_endSession: "sessions (endSession sid m) = AList.delete sid (sessions m)"
proof (cases "map_of (sessions m) sid")
  case None
  then have "sid \<notin> fst ` set (sessions m)" by (simp add: map_of_eq_None_iff)
  with None show ?thesis by (simp add: endSession_def)
next
  case (Some s)
  then show ?thesis by (simp add: endSession_def)
qed

lemma sessions_sweep:
  "sessions (fold (sweep_step now maxAge) xs m)
     = AList.restrict {k. \<not> (\<exists>s. (k, s) \<in> set xs \<and> now - lastActivity s > maxAge)} (sessions m)"
proof (induction xs arbitrary: m)
  case Nil
  show ?case by (simp add: AList.restrict_eq filter_id_conv)
next
  case (Cons x xs)
  obtain k s where x: "x = (k, s)" by (cases x)
  show ?case
  proof (cases "now - lastActivity s > maxAge")
    case True
    then have "sessions (sweep_step now maxAge x m) = AList.delete k (sessions m)"
      by (simp add: sweep_step_def x sessions_endSession)
    then have "sessions (fold (sweep_step now maxAge) (x # xs) m)
        = AList.restrict {k. \<not> (\<exists>s. (k, s) \<in> set xs \<and> now - lastActivity s > maxAge)}
            (AList.delete k (sessions m))"
      by (simp add: Cons.IH)
    also have "\<dots> = AList.restrict {k. \<not> (\<exists>s. (k, s) \<in> set (x # xs) \<and> now - lastActivity s > maxAge)} (sessions m)"
      using True by (auto simp: AList.restrict_eq AList.delete_eq x intro!: filter_cong)
    finally show ?thesis .
  next
    case False
    then have "sweep_step now maxAge x m = m" by (simp add: sweep_step_def x)
    then have "sessions (fold (sweep_step now maxAge) (x # xs) m)
        = AList.restrict {k. \<not> (\<exists>s. (k, s) \<in> set xs \<and> now - lastActivity s > maxAge)} (sessions m)"
      by (simp add: Cons.IH)
    also have "\<dots> = AList.restrict {k. \<not> (\<exists>s. (k, s) \<in> set (x # xs) \<and> now - lastActivity s > maxAge)} (sessions m)"
      using False by (auto simp: AList.restrict_eq x intro!: filter_cong)
    finally show ?thesis .
  qed
qed

lemma cleanupStaleSessions_lookup:
  assumes d: "distinct (map fst (sessions m))"
  shows "map_of (sessions (cleanupStaleSessions now maxAge m)) sid
     = (case map_of (sessions m) sid of
          None \<Rightarrow> None
        | Some s \<Rightarrow> if now - lastActivity s > maxAge then None else Some s)"
proof -
  have "cleanupStaleSessions now maxAge m = fold (sweep_step now maxAge) (sessions m) m"
    by (simp add: cleanupStaleSessions_def sweep_step_def)
  then have "map_of (sessions (cleanupStaleSessions now maxAge m)) sid
      = (map_of (sessions m) |` {k. \<not> (\<exists>s. (k, s) \<in> set (sessions m) \<and> now - lastActivity s > maxAge)}) sid"
    by (simp add: sessions_sweep restr_conv')
  also have "\<dots> = (case map_of (sessions m) sid of
          None \<Rightarrow> None
        | Some s \<Rightarrow> if now - lastActivity s > maxAge then None else Some s)"
    using d by (auto simp: restrict_map_def split: option.splits dest: eq_key_imp_eq_value)
  finally show ?thesis .
qed

text \<open>
  The registry starts empty, and every operation of the manager keeps its keys distinct.
\<close>

lemma registry_keys_stay_distinct:
  assumes d: "distinct (map fst (sessions m))"
  shows "distinct (map fst (sessions (snd (createSession now rnd host st m))))"
    and "distinct (map fst (sessions (endSession sid m)))"
    and "distinct (map fst (sessions (cleanupStaleSessions now maxAge m)))"
    and "distinct (map fst (sessions (snd (addPlayer now uuid sid sock name m))))"
    and "distinct (map fst (sessions (snd (disconnectPlayer now sock m))))"
    and "distinct (map fst (sessions (snd (removePlayer sid pid m))))"
    and "distinct (map fst (sessions (snd (startRound now sid m))))"
    and "distinct (map fst (sessions (snd (processBuzz now sock m))))"
    and "distinct (map fst (sessions (snd (markCorrect now sid m))))"
    and "distinct (map fst (sessions (snd (markPass sid m))))"
    and "distinct (map fst (sessions (snd (skipPlayer sid pid m))))"
proof -
  show "distinct (map fst (sessions (snd (createSession now rnd host st m))))"
    using d by (simp add: createSession_def Let_def distinct_update)
  show "distinct (map fst (sessions (endSession sid m)))"
    using d by (simp add: sessions_endSession distinct_delete)
  show "distinct (map fst (sessions (cleanupStaleSessions now maxAge m)))"
  proof -
    have "cleanupStaleSessions now maxAge m = fold (sweep_step now maxAge) (sessions m) m"
      by (simp add: cleanupStaleSessions_def sweep_step_def)
    with d show ?thesis by (simp add: sessions_sweep distinct_restr)
  qed
  show "distinct (map fst (sessions (snd (addPlayer now uuid sid sock name m))))"
    using d by (simp add: addPlayer_def Let_def distinct_update split: option.splits)
  show "distinct (map fst (sessions (snd (disconnectPlayer now sock m))))"
    using d by (simp add: disconnectPlayer_def Let_def distinct_update split: option.splits)
  show "distinct (map fst (sessions (snd (removePlayer sid pid m))))"
    using d by (simp add: removePlayer_def Let_def distinct_update split: option.splits)
  show "distinct (map fst (sessions (snd (startRound now sid m))))"
    using d by (simp add: startRound_def Let_def distinct_update split: option.splits)
  show "distinct (map fst (sessions (snd (processBuzz now sock m))))"
    using d by (simp add: processBuzz_def Let_def distinct_update split: option.splits prod.splits)
  show "distinct (map fst (sessions (snd (markCorrect now sid m))))"
    using d by (simp add: markCorrect_def updateTeamScore_def Let_def distinct_update split: option.splits)
  show "distinct (map fst (sessions (snd (markPass sid m))))"
    using d by (simp add: markPass_def Let_def distinct_update split: option.splits)
  show "distinct (map fst (sessions (snd (skipPlayer sid pid m))))"
    using d by (simp add: skipPlayer_def Let_def distinct_update split: option.splits)
qed

text \<open>
  C9. The last activity of a session is the maximum of its creation time and the
  last-seen times of its players, and the sweep removes a session of the registry
  exactly when \<open>now\<close> minus its last activity is greater than \<open>maxAgeMs\<close>: a session
  \<open>maxAgeMs + 1\<close> ms past its last activity is removed, one exactly \<open>maxAgeMs\<close> ms past
  it is kept. The keys of the registry are distinct, as the keys of a \<open>Map\<close> are.
\<close>

theorem cleanupStaleSessions_boundary:
  assumes d: "distinct (map fst (sessions m))"
  shows "lastActivity s = Max (insert (createdAt s) ((lastSeen \<circ> snd) ` set (players s)))
   \<and> map_of (sessions (cleanupStaleSessions now maxAge m)) sid
       = (case map_of (sessions m) sid of
            None \<Rightarrow> None
          | Some s' \<Rightarrow> if now - lastActivity s' > maxAge then None else Some s')
   \<and> (map_of (sessions m) sid = Some s \<and> now - lastActivity s = maxAge + 1 \<longrightarrow>
         map_of (sessions (cleanupStaleSessions now maxAge m)) sid = None)
   \<and> (map_of (sessions m) sid = Some s \<and> now - lastActivity s = maxAge \<longrightarrow>
         map_of (sessions (cleanupStaleSessions now maxAge m)) sid = Some s)"
  using cleanupStaleSessions_lookup[OF d, of now maxAge sid] lastActivity_Max[of s]
  by simp

theorem cleanupStaleSessions_boundary_witness:
  "distinct (map fst (sessions manager_two))
   \<and> map_of (sessions manager_two) ''AAAAAA'' = Some session0
   \<and> 1031 - lastActivity session0 = 1000 + 1
   \<and> map_of (sessions (cleanupStaleSessions 1031 1000 manager_two)) ''AAAAAA'' = None
   \<and> map_of (sessions manager_two) ''BBBBBB'' = Some session_fresh
   \<and> 1031 - lastActivity session_fresh = 1000
   \<and> map_of (sessions (cleanupStaleSessions 1031 1000 manager_two)) ''BBBBBB''
       = Some session_fresh"
proof -
  have d: "distinct (map fst (sessions manager_two))"
    by (simp add: manager_two_def example_defs)
  have a: "lastActivity session0 = 30" and b: "lastActivity session_fresh = 31"
    by (simp_all add: lastActivity_def session_fresh_def example_defs)
  have l: "map_of (sessions manager_two) ''AAAAAA'' = Some session0"
    "map_of (sessions manager_two) ''BBBBBB'' = Some session_fresh"
    by (simp_all add: manager_two_def example_defs)
  from cleanupStaleSessions_boundary [OF d, of session0 1031 1000 "''AAAAAA''"]
    cleanupStaleSessions_boundary [OF d, of session_fresh 1031 1000 "''BBBBBB''"]
    d a b l
  show ?thesis by simp
qed

section \<open>Marking an answer correct\<close>

lemma add_score_split:
  "find (\<lambda>t. team_id t = tid) ts = Some t \<Longrightarrow>
     \<exists>ts1 ts2. ts = ts1 @ t # ts2 \<and> (\<forall>u \<in> set ts1. team_id u \<noteq> tid)
        \<and> add_score tid delta ts = ts1 @ t\<lparr>score := score t + delta\<rparr> # ts2"
proof (induction ts)
  case Nil
  then show ?case by simp
next
  case (Cons u ts)
  show ?case
  proof (cases "team_id u = tid")
    case True
    with Cons.prems have "u = t" by simp
    with True show ?thesis by (intro exI[of _ "[]"] exI[of _ ts]) simp
  next
    case False
    with Cons.prems have "find (\<lambda>t. team_id t = tid) ts = Some t" by simp
    from Cons.IH[OF this] obtain ts1 ts2 where
      "ts = ts1 @ t # ts2" "\<forall>u \<in> set ts1. team_id u \<noteq> tid"
      "add_score tid delta ts = ts1 @ t\<lparr>score := score t + delta\<rparr> # ts2" by blast
    with False show ?thesis by (intro exI[of _ "u # ts1"] exI[of _ ts2]) simp
  qed
qed

lemma add_score_absent: "find (\<lambda>t. team_id t = tid) ts = None \<Longrightarrow> add_score tid delta ts = ts"
  by (induction ts) (auto split: if_splits)

lemma markCorrect_state:
  assumes look: "map_of (sessions m) sid = Some s"
    and act: "activePlayerId (roundState s) = Some a" and ne: "a \<noteq> []"
  shows "\<exists>res s'. markCorrect now sid m = (Some res, m\<lparr>sessions := AList.update sid s' (sessions m)\<rparr>)
      \<and> result_questionNumber res = questionNumber (roundState s)
      \<and> winnerId res = Some a
      \<and> buzzCount res = length (buzzQueue (roundState s))
      \<and> roundHistory s' = roundHistory s @ [res]
      \<and> roundState s' = \<lparr>status = Ended, questionNumber = questionNumber (roundState s),
              startedAt = None, lockedAt = None, activePlayerId = None, buzzQueue = []\<rparr>
      \<and> teams s' = (case awarded_team s a of None \<Rightarrow> teams s
                     | Some t \<Rightarrow> add_score (team_id t) 1 (teams s))"
  using look act ne
  by (auto simp: markCorrect_def updateTeamScore_def awarded_team_def Let_def update_conv'
      split: option.splits dest: find_Some_iff[THEN iffD1])

text \<open>
  C7. With a truthy \<open>activePlayerId\<close> (player ids are UUIDs, never empty),
  \<open>markCorrect\<close> appends to the round history a result with the current question
  number, the active player as winner and the queue length as buzz count. If the active
  player has a team, the score of that team grows by exactly one and nothing else in the
  list of teams changes; otherwise the list of teams is unchanged. The round is left
  ended, with an empty queue, no active player and the same question number.
\<close>

theorem markCorrect_result:
  assumes look: "map_of (sessions m) sid = Some s"
    and act: "activePlayerId (roundState s) = Some a" and ne: "a \<noteq> []"
  shows "\<exists>res s'.
        fst (markCorrect now sid m) = Some res
      \<and> map_of (sessions (snd (markCorrect now sid m))) sid = Some s'
      \<and> roundHistory s' = roundHistory s @ [res]
      \<and> result_questionNumber res = questionNumber (roundState s)
      \<and> winnerId res = Some a
      \<and> buzzCount res = length (buzzQueue (roundState s))
      \<and> (case awarded_team s a of
            None \<Rightarrow> teams s' = teams s
          | Some t \<Rightarrow>
              (\<exists>ts1 ts2. teams s = ts1 @ t # ts2 \<and> (\<forall>u \<in> set ts1. team_id u \<noteq> team_id t)
                 \<and> teams s' = ts1 @ t\<lparr>score := score t + 1\<rparr> # ts2))
      \<and> roundState s' = \<lparr>status = Ended, questionNumber = questionNumber (roundState s),
              startedAt = None, lockedAt = None, activePlayerId = None, buzzQueue = []\<rparr>"
proof -
  from markCorrect_state[OF look act ne, of now] obtain res s' where
    mc: "markCorrect now sid m = (Some res, m\<lparr>sessions := AList.update sid s' (sessions m)\<rparr>)"
    and f: "result_questionNumber res = questionNumber (roundState s)"
      "winnerId res = Some a" "buzzCount res = length (buzzQueue (roundState s))"
      "roundHistory s' = roundHistory s @ [res]"
      "roundState s' = \<lparr>status = Ended, questionNumber = questionNumber (roundState s),
              startedAt = None, lockedAt = None, activePlayerId = None, buzzQueue = []\<rparr>"
    and t: "teams s' = (case awarded_team s a of None \<Rightarrow> teams s
                     | Some t \<Rightarrow> add_score (team_id t) 1 (teams s))"
    by blast
  have teams: "case awarded_team s a of
            None \<Rightarrow> teams s' = teams s
          | Some t \<Rightarrow>
              (\<exists>ts1 ts2. teams s = ts1 @ t # ts2 \<and> (\<forall>u \<in> set ts1. team_id u \<noteq> team_id t)
                 \<and> teams s' = ts1 @ t\<lparr>score := score t + 1\<rparr> # ts2)"
  proof (cases "awarded_team s a")
    case None
    with t show ?thesis by simp
  next
    case (Some tm)
    then have fnd: "find (\<lambda>t. team_id t = team_id tm) (teams s) = Some tm"
      by (auto simp: awarded_team_def split: option.splits if_splits dest: find_Some_iff[THEN iffD1])
    from add_score_split[OF fnd, of 1] t Some show ?thesis by simp
  qed
  have "map_of (sessions (snd (markCorrect now sid m))) sid = Some s'"
    by (simp add: mc update_conv')
  with mc f teams show ?thesis by (intro exI[of _ res] exI[of _ s']) simp
qed

theorem markCorrect_result_witness:
  "map_of (sessions manager_A) ''AAAAAA'' = Some session_A
   \<and> activePlayerId (roundState session_A) = Some ''pA''
   \<and> awarded_team session_A ''pA'' = Some team1
   \<and> fst (markCorrect 300 ''AAAAAA'' manager_A)
       = Some \<lparr>result_questionNumber = 1, winnerId = Some ''pA'', winnerName = Some ''Ann'',
               result_teamId = Some ''t1'', buzzCount = 1, duration = 250\<rparr>
   \<and> map_option (map score \<circ> teams)
        (map_of (sessions (snd (markCorrect 300 ''AAAAAA'' manager_A))) ''AAAAAA'') = Some [4]
   \<and> map_option roundState
        (map_of (sessions (snd (markCorrect 300 ''AAAAAA'' manager_A))) ''AAAAAA'')
       = Some \<lparr>status = Ended, questionNumber = 1, startedAt = None, lockedAt = None,
               activePlayerId = None, buzzQueue = []\<rparr>
   \<and> map_of (sessions (snd (markPass ''AAAAAA'' manager_AB))) ''AAAAAA'' = Some session_B
   \<and> activePlayerId (roundState session_B) = Some ''pB''
   \<and> awarded_team session_B ''pB'' = None
   \<and> map_option (map score \<circ> teams)
        (map_of (sessions (snd (markCorrect 300 ''AAAAAA''
           (snd (markPass ''AAAAAA'' manager_AB))))) ''AAAAAA'') = Some [3]"
proof -
  have lookA: "map_of (sessions manager_A) ''AAAAAA'' = Some session_A"
    by (simp add: session_A_def queue_defs buzz_defs example_defs)
  have actA: "activePlayerId (roundState session_A) = Some ''pA''" "''pA'' \<noteq> []"
    by (simp_all add: session_A_def)
  have lookB: "map_of (sessions (snd (markPass ''AAAAAA'' manager_AB))) ''AAAAAA'' = Some session_B"
    by (simp add: session_B_def queue_defs queue_op_defs buzz_defs example_defs)
  have actB: "activePlayerId (roundState session_B) = Some ''pB''" "''pB'' \<noteq> []"
    by (simp_all add: session_B_def)
  have aw: "awarded_team session_A ''pA'' = Some team1" "awarded_team session_B ''pB'' = None"
    by (simp_all add: awarded_team_def session_A_def session_B_def example_defs)
  have ev: "fst (markCorrect 300 ''AAAAAA'' manager_A)
       = Some \<lparr>result_questionNumber = 1, winnerId = Some ''pA'', winnerName = Some ''Ann'',
               result_teamId = Some ''t1'', buzzCount = 1, duration = 250\<rparr>"
    "map_option (map score \<circ> teams)
        (map_of (sessions (snd (markCorrect 300 ''AAAAAA'' manager_A))) ''AAAAAA'') = Some [4]"
    "map_option roundState
        (map_of (sessions (snd (markCorrect 300 ''AAAAAA'' manager_A))) ''AAAAAA'')
       = Some \<lparr>status = Ended, questionNumber = 1, startedAt = None, lockedAt = None,
               activePlayerId = None, buzzQueue = []\<rparr>"
    by (simp_all add: markCorrect_def updateTeamScore_def queue_defs buzz_defs example_defs)
  have evB: "map_option (map score \<circ> teams)
        (map_of (sessions (snd (markCorrect 300 ''AAAAAA''
           (snd (markPass ''AAAAAA'' manager_AB))))) ''AAAAAA'') = Some [3]"
    by (simp add: markCorrect_def updateTeamScore_def queue_defs queue_op_defs buzz_defs
        example_defs)
  from markCorrect_result [OF lookA actA, of 300] markCorrect_result [OF lookB actB, of 300]
    lookA actA lookB actB aw ev evB
  show ?thesis by blast
qed

section \<open>Session codes\<close>

lemma upt6: "[0..<6] = [0, 1, 2, 3, 4, 5]"
  by code_simp

lemma length_chars: "length chars = 32"
  by (simp add: chars_def)

lemma generateSessionId_unfold:
  "generateSessionId rnd =
     charAt chars \<lfloor>rnd 0 * 32\<rfloor> @ charAt chars \<lfloor>rnd 1 * 32\<rfloor> @ charAt chars \<lfloor>rnd 2 * 32\<rfloor>
     @ charAt chars \<lfloor>rnd 3 * 32\<rfloor> @ charAt chars \<lfloor>rnd 4 * 32\<rfloor> @ charAt chars \<lfloor>rnd 5 * 32\<rfloor>"
  by (simp add: generateSessionId_def upt6 length_chars)

lemma floor_index: "0 \<le> r \<Longrightarrow> r < 1 \<Longrightarrow> 0 \<le> \<lfloor>r * 32\<rfloor> \<and> \<lfloor>r * 32\<rfloor> < 32" for r :: real
  by (simp add: floor_less_iff)

lemma charAt_in_range:
  "0 \<le> i \<Longrightarrow> i < 32 \<Longrightarrow> length (charAt chars i) = 1 \<and> set (charAt chars i) \<subseteq> set chars"
  by (simp add: charAt_def length_chars)

lemma chars_unambiguous:
  "CHR ''O'' \<notin> set chars \<and> CHR ''0'' \<notin> set chars \<and> CHR ''I'' \<notin> set chars \<and> CHR ''1'' \<notin> set chars"
  by (simp add: chars_def)

lemma generateSessionId_shape:
  assumes "\<forall>i < 6. 0 \<le> rnd i \<and> rnd i < 1"
  shows "length (generateSessionId rnd) = 6 \<and> set (generateSessionId rnd) \<subseteq> set chars"
proof -
  have "length (charAt chars \<lfloor>rnd i * 32\<rfloor>) = 1 \<and> set (charAt chars \<lfloor>rnd i * 32\<rfloor>) \<subseteq> set chars"
    if "i < 6" for i
    using assms that floor_index[of "rnd i"] charAt_in_range[of "\<lfloor>rnd i * 32\<rfloor>"] by blast
  from this[of 0] this[of 1] this[of 2] this[of 3] this[of 4] this[of 5]
  show ?thesis by (simp add: generateSessionId_unfold)
qed

text \<open>
  C6, as the claim states it, fails. The registry holds a live session with the code
  AAAAAA; when \<open>Math.random()\<close> returns 0 six times, \<open>createSession\<close> gives the new
  session the same code and stores it under that code, and the registry then holds the
  new session (host h9) in place of the live one (host h0).
\<close>

theorem createSession_collision_counterexample:
  "map_option hostSocketId (map_of (sessions manager0) ''AAAAAA'') = Some ''h0''
   \<and> session_id (fst (createSession 500 rnd_zero ''h9'' no_settings manager0)) = ''AAAAAA''
   \<and> map fst (sessions (snd (createSession 500 rnd_zero ''h9'' no_settings manager0)))
       = [''AAAAAA'']
   \<and> map_option hostSocketId
        (map_of (sessions (snd (createSession 500 rnd_zero ''h9'' no_settings manager0)))
           ''AAAAAA'') = Some ''h9''"
  by (simp add: createSession_def generateSessionId_unfold rnd_zero_def charAt_def chars_def
      Let_def example_defs)

text \<open>
  C6, amended. Every session that \<open>createSession\<close> creates has a code of 6 characters
  drawn from the alphabet \<open>chars\<close>, which has no O, 0, I or 1. The code is not compared
  with the codes of the live sessions: the new session is stored under its code, where
  it replaces a live session that has the same code.
\<close>

theorem createSession_code:
  assumes "\<forall>i < 6. 0 \<le> rnd i \<and> rnd i < 1"
  shows "length (session_id (fst (createSession now rnd host st m))) = 6
   \<and> set (session_id (fst (createSession now rnd host st m))) \<subseteq> set chars
   \<and> CHR ''O'' \<notin> set chars \<and> CHR ''0'' \<notin> set chars
   \<and> CHR ''I'' \<notin> set chars \<and> CHR ''1'' \<notin> set chars
   \<and> sessions (snd (createSession now rnd host st m))
       = AList.update (session_id (fst (createSession now rnd host st m)))
           (fst (createSession now rnd host st m)) (sessions m)
   \<and> map_of (sessions (snd (createSession now rnd host st m)))
        (session_id (fst (createSession now rnd host st m)))
       = Some (fst (createSession now rnd host st m))"
  using generateSessionId_shape[OF assms] chars_unambiguous
  by (simp add: createSession_def Let_def update_conv')

theorem createSession_code_witness:
  "map rnd_mixed [0, 1, 2, 3, 4, 5] = [1 / 100, 27 / 200, 13 / 50, 77 / 200, 51 / 100, 127 / 200]
   \<and> session_id (fst (createSession 500 rnd_mixed ''h9'' no_settings manager0)) = ''AEJNSW''
   \<and> map fst (sessions (snd (createSession 500 rnd_mixed ''h9'' no_settings manager0)))
       = [''AAAAAA'', ''AEJNSW'']"
proof -
  have r: "\<forall>i < 6. 0 \<le> rnd_mixed i \<and> rnd_mixed i < 1"
    by (simp add: rnd_mixed_def)
  have c: "session_id (fst (createSession 500 rnd_mixed ''h9'' no_settings manager0))
             = ''AEJNSW''"
    by (simp add: createSession_def generateSessionId_unfold rnd_mixed_def charAt_def chars_def
        Let_def)
  have v: "map rnd_mixed [0, 1, 2, 3, 4, 5]
             = [1 / 100, 27 / 200, 13 / 50, 77 / 200, 51 / 100, 127 / 200]"
    by (simp add: rnd_mixed_def)
  from createSession_code [OF r, of 500 "''h9''" no_settings manager0] v c
  show ?thesis by (simp add: example_defs)
qed

end
